theory Spec2Isabelle
  imports Complex_Main
begin

section \<open>JavaScript values\<close>

text \<open>
  The scripts compute with JavaScript Numbers. The numbers that reach the code below are
  finite: amounts pass through \<open>num\<close>, which maps every non-finite value to 0, the price
  tables are JSON files, and the configured floors are taken to be numbers. A finite
  Number is modelled as the real it denotes and arithmetic is exact (no rounding). A
  lookup \<open>obj[key]\<close> is a partial map; \<open>None\<close> stands for \<open>undefined\<close>/\<open>null\<close>. The JSON
  tables (price cache, overrides, minimum amounts) are taken to hold numbers.
\<close>

text \<open>
  \<^verbatim>\<open>function num(x){ const n=Number(String(x??"").trim()); return Number.isFinite(n)?n:0; }\<close>
  On \<open>undefined\<close> the string is empty and \<open>Number("")\<close> is 0; a finite number is read back
  unchanged.
\<close>

definition num :: "real option \<Rightarrow> real" where
  "num x = (case x of None \<Rightarrow> 0 | Some n \<Rightarrow> n)"

text \<open>\<open>String.prototype.toUpperCase\<close> on ASCII asset identifiers.\<close>

definition upperChar :: "char \<Rightarrow> char" where
  "upperChar c =
     (case map_of (zip ''abcdefghijklmnopqrstuvwxyz'' ''ABCDEFGHIJKLMNOPQRSTUVWXYZ'') c of
        None \<Rightarrow> c
      | Some u \<Rightarrow> u)"

definition toUpperCase :: "string \<Rightarrow> string" where
  "toUpperCase s = map upperChar s"

text \<open>\<open>s.startsWith(t)\<close>, also the regular expressions \<open>/^USDC/\<close> and the like.\<close>

fun startsWith :: "string \<Rightarrow> string \<Rightarrow> bool" where
  "startsWith s [] = True"
| "startsWith [] (c # cs) = False"
| "startsWith (x # xs) (c # cs) = (x = c \<and> startsWith xs cs)"

text \<open>\<open>s.includes(t)\<close>: \<open>t\<close> occurs in \<open>s\<close> as a contiguous substring.\<close>

fun includes_str :: "string \<Rightarrow> string \<Rightarrow> bool" where
  "includes_str [] t = startsWith [] t"
| "includes_str (x # xs) t = (startsWith (x # xs) t \<or> includes_str xs t)"

section \<open>fireblocks\_analysis\_v2.js\<close>

subsection \<open>Configuration and data\<close>

record config =
  OFFLINE :: bool
  MIN_USD_PER_TX :: real
  STABLECOIN_MIN_USD :: real

text \<open>One line of plan.csv after the column lookups of the main loop.\<close>

record plan_line =
  p_source :: string
  p_asset :: string
  p_amount :: real
  p_dest :: string
  p_requiresGas :: bool
  p_gasAsset :: string
  p_gasReady :: bool

record candidate =
  rid :: string
  sourceVaultId :: string
  assetId :: string
  amount :: real
  destinationVaultId :: string
  requiresGas :: bool
  gasAssetId :: string
  gasReady :: bool

datatype reason = READY_TO_EXECUTE | NEEDS_GAS | BELOW_MIN | UNKNOWN_PRICE

datatype source = Stable | Cached | Coingecko | Unknown

text \<open>
  The \<open>basis\<close> strings of \<open>minAmountFor\<close>; the two floors carry the configured number that
  the source appends to the text.
\<close>

datatype basis = min_by_asset | stable_usd_floor real | usd_floor real | no_price_no_floor

record classified = candidate +
  priceUSD :: "real option"
  priceSource :: source
  estUSD :: "real option"
  minAmt :: "real option"
  minBasis :: basis
  reason :: reason

record price_state =
  prices :: "string \<rightharpoonup> real"
  sources :: "string \<rightharpoonup> source"

subsection \<open>isStable\<close>

definition isStable :: "string \<Rightarrow> bool" where
  "isStable aid =
     (let a = toUpperCase aid
      in includes_str a ''USDC'' \<or> includes_str a ''USDT'' \<or> includes_str a ''BUSD''
         \<or> includes_str a ''TUSD'')"

subsection \<open>Candidate collection\<close>

definition rowId :: "string \<Rightarrow> string \<Rightarrow> string \<Rightarrow> string" where
  "rowId source asset dest = source @ ''|'' @ asset @ ''|'' @ dest"

text \<open>\<open>Set.prototype.add\<close> on a set kept in insertion order.\<close>

definition set_add :: "'a list \<Rightarrow> 'a \<Rightarrow> 'a list" where
  "set_add s a = (if a \<in> set s then s else s @ [a])"

text \<open>
  The loop over the plan lines: every line adds its asset to \<open>assets\<close>; a line whose row
  id is in the completed set is skipped (\<open>continue\<close>), any other line is pushed.
\<close>

fun collect ::
  "string set \<Rightarrow> plan_line list \<Rightarrow> candidate list \<times> string list
     \<Rightarrow> candidate list \<times> string list" where
  "collect completed [] acc = acc"
| "collect completed (l # ls) (candidates, assets) =
     (let rid = rowId (p_source l) (p_asset l) (p_dest l);
          assets' = set_add assets (p_asset l)
      in if rid \<in> completed then collect completed ls (candidates, assets')
         else collect completed ls
                (candidates @
                   [\<lparr>rid = rid, sourceVaultId = p_source l, assetId = p_asset l,
                     amount = p_amount l, destinationVaultId = p_dest l,
                     requiresGas = p_requiresGas l, gasAssetId = p_gasAsset l,
                     gasReady = p_gasReady l\<rparr>],
                 assets'))"

subsection \<open>minAmountFor and the classification loop\<close>

definition minAmountFor ::
  "config \<Rightarrow> (string \<rightharpoonup> real) \<Rightarrow> (string \<rightharpoonup> real) \<Rightarrow> string \<Rightarrow> real option \<times> basis" where
  "minAmountFor cfg minByAsset prs a =
     (if minByAsset a \<noteq> None then (minByAsset a, min_by_asset)
      else if isStable a then
        (Some (STABLECOIN_MIN_USD cfg), stable_usd_floor (STABLECOIN_MIN_USD cfg))
      else (case prs a of
              None \<Rightarrow> (None, no_price_no_floor)
            | Some p \<Rightarrow>
                if num (Some p) > 0
                then (Some (MIN_USD_PER_TX cfg / p), usd_floor (MIN_USD_PER_TX cfg))
                else (None, no_price_no_floor)))"

definition priceKnown :: "price_state \<Rightarrow> candidate \<Rightarrow> bool" where
  "priceKnown st r = (num (prices st (assetId r)) > 0 \<or> isStable (assetId r))"

text \<open>\<open>isStable(r.assetId)?1:p\<close>\<close>

definition priceUsed :: "price_state \<Rightarrow> candidate \<Rightarrow> real option" where
  "priceUsed st r = (if isStable (assetId r) then Some 1 else prices st (assetId r))"

text \<open>\<open>minAmt!=null && r.amount < minAmt\<close>\<close>

definition lessThanMin :: "real option \<Rightarrow> real \<Rightarrow> bool" where
  "lessThanMin m amt = (case m of None \<Rightarrow> False | Some v \<Rightarrow> amt < v)"

definition classifyRow ::
  "config \<Rightarrow> (string \<rightharpoonup> real) \<Rightarrow> price_state \<Rightarrow> candidate \<Rightarrow> classified" where
  "classifyRow cfg minByAsset st r =
     (let known = priceKnown st r;
          est = (if known then map_option (\<lambda>p. amount r * p) (priceUsed st r) else None);
          (m, b) = minAmountFor cfg minByAsset (prices st) (assetId r);
          reason0 = (if requiresGas r \<and> \<not> gasReady r then NEEDS_GAS
                     else if lessThanMin m (amount r) then BELOW_MIN
                     else READY_TO_EXECUTE);
          reason1 = (if \<not> known
                     then (if reason0 = READY_TO_EXECUTE then UNKNOWN_PRICE else reason0)
                     else reason0)
      in \<lparr>rid = rid r, sourceVaultId = sourceVaultId r, assetId = assetId r,
          amount = amount r, destinationVaultId = destinationVaultId r,
          requiresGas = requiresGas r, gasAssetId = gasAssetId r, gasReady = gasReady r,
          priceUSD = (if known then priceUsed st r else None),
          priceSource = (case sources st (assetId r) of None \<Rightarrow> Unknown | Some s \<Rightarrow> s),
          estUSD = est, minAmt = m, minBasis = b, reason = reason1\<rparr>)"

definition classifyAll ::
  "config \<Rightarrow> (string \<rightharpoonup> real) \<Rightarrow> price_state \<Rightarrow> candidate list \<Rightarrow> classified list" where
  "classifyAll cfg minByAsset st cands = map (classifyRow cfg minByAsset st) cands"

subsection \<open>getPrices\<close>

text \<open>\<open>[...new Set(xs)]\<close>: the first occurrences, in order.\<close>

definition uniq :: "'a list \<Rightarrow> 'a list" where
  "uniq xs = foldl set_add [] xs"

text \<open>
  \<^verbatim>\<open>for(let i=0;i<ids.length;i+=n) chunks.push(ids.slice(i,i+n));\<close>
  The step \<open>n\<close> is the constant 150, 200 or 250 in every script.
\<close>

fun chunks :: "nat \<Rightarrow> 'a list \<Rightarrow> 'a list list" where
  "chunks n xs = (if n = 0 \<or> xs = [] then [] else take n xs # chunks n (drop n xs))"

declare chunks.simps [simp del]

text \<open>A non-empty string is truthy; \<open>undefined\<close> and the empty string are not.\<close>

definition truthy :: "string option \<Rightarrow> bool" where
  "truthy v = (case v of None \<Rightarrow> False | Some s \<Rightarrow> s \<noteq> [])"

definition stableStep :: "string \<Rightarrow> price_state \<Rightarrow> price_state" where
  "stableStep a st =
     (if isStable a
      then st\<lparr>prices := (prices st)(a \<mapsto> 1), sources := (sources st)(a \<mapsto> Stable)\<rparr>
      else st)"

definition cachedStep :: "(string \<rightharpoonup> real) \<Rightarrow> string \<Rightarrow> price_state \<Rightarrow> price_state" where
  "cachedStep cached a st =
     (if prices st a \<noteq> None then st
      else if num (cached a) > 0
      then st\<lparr>prices := (prices st)(a \<mapsto> num (cached a)),
              sources := (sources st)(a \<mapsto> Cached)\<rparr>
      else st)"

definition unknownStep :: "string \<Rightarrow> price_state \<Rightarrow> price_state" where
  "unknownStep a st =
     (if prices st a = None then st\<lparr>sources := (sources st)(a \<mapsto> Unknown)\<rparr> else st)"

definition mkPairs ::
  "(string \<rightharpoonup> string) \<Rightarrow> price_state \<Rightarrow> string list \<Rightarrow> (string \<times> string) list" where
  "mkPairs cgmap st assets =
     List.map_filter
       (\<lambda>a. if prices st a \<noteq> None then None
            else if truthy (cgmap a) then map_option (\<lambda>cg. (a, cg)) (cgmap a) else None)
       assets"

text \<open>
  The body of the inner loop over \<open>pairs\<close>; \<open>json\<close> maps a CoinGecko id to the \<open>usd\<close> field of
  its entry (\<open>json?.[cgid]?.usd\<close>).
\<close>

definition pairStep ::
  "(string \<rightharpoonup> real) \<Rightarrow> string \<times> string \<Rightarrow> price_state \<Rightarrow> price_state" where
  "pairStep json pr st =
     (case pr of (asset, cgid) \<Rightarrow>
        if prices st asset \<noteq> None then st
        else if num (json cgid) > 0
        then st\<lparr>prices := (prices st)(asset \<mapsto> num (json cgid)),
                sources := (sources st)(asset \<mapsto> Coingecko)\<rparr>
        else st)"

text \<open>
  One chunk: the request either fails (\<open>None\<close>; the \<open>catch\<close> continues with the next
  chunk) or returns the parsed body.
\<close>

definition chunkStep ::
  "(string list \<Rightarrow> (string \<rightharpoonup> real) option) \<Rightarrow> (string \<times> string) list \<Rightarrow> string list
     \<Rightarrow> price_state \<Rightarrow> price_state" where
  "chunkStep fetch pairs chunk st =
     (case fetch chunk of None \<Rightarrow> st | Some json \<Rightarrow> fold (pairStep json) pairs st)"

text \<open>The state before the first request: the stable assets, then the cache.\<close>

definition beforeFetch :: "(string \<rightharpoonup> real) \<Rightarrow> string list \<Rightarrow> price_state" where
  "beforeFetch cacheFile assets =
     fold (cachedStep cacheFile) assets
       (fold stableStep assets \<lparr>prices = Map.empty, sources = Map.empty\<rparr>)"

text \<open>
  \<open>getPrices\<close> returns the prices and sources, and leaves the cache file
  \<open>last_prices_usd.json\<close> in the state given by the second component. In offline mode
  the function returns before the write.
\<close>

definition getPrices ::
  "config \<Rightarrow> (string \<rightharpoonup> real) \<Rightarrow> (string \<rightharpoonup> string) \<Rightarrow> (string list \<Rightarrow> (string \<rightharpoonup> real) option)
     \<Rightarrow> string list \<Rightarrow> price_state \<times> (string \<rightharpoonup> real)" where
  "getPrices cfg cacheFile cgmap fetch assets =
     (let st2 = beforeFetch cacheFile assets
      in if OFFLINE cfg then (fold unknownStep assets st2, cacheFile)
         else
           (let pairs = mkPairs cgmap st2 assets;
                ids = uniq (map snd pairs);
                st3 = fold (chunkStep fetch pairs) (chunks 150 ids) st2;
                st4 = fold unknownStep assets st3;
                merged = cacheFile ++ prices st4
            in (st4, merged)))"

text \<open>The main function up to the classification loop.\<close>

definition analyse ::
  "config \<Rightarrow> string set \<Rightarrow> (string \<rightharpoonup> real) \<Rightarrow> (string \<rightharpoonup> real) \<Rightarrow> (string \<rightharpoonup> string)
     \<Rightarrow> (string list \<Rightarrow> (string \<rightharpoonup> real) option) \<Rightarrow> plan_line list
     \<Rightarrow> classified list \<times> (string \<rightharpoonup> real)" where
  "analyse cfg completed minByAsset cacheFile cgmap fetch plan =
     (case collect completed plan ([], []) of (candidates, assets) \<Rightarrow>
        (case getPrices cfg cacheFile cgmap fetch assets of (st, cacheFile') \<Rightarrow>
           (classifyAll cfg minByAsset st candidates, cacheFile')))"

section \<open>The receivership report (fb\_receivership\_report.js)\<close>

text \<open>
  The report reads the plan, drops the completed rows and assigns each remaining row a
  status. A plan row is a \<open>plan_line\<close>; a remaining row carries its \<open>rowId\<close> in the
  field \<open>rid\<close>.
\<close>

definition SKIP_VAULTS :: "string set" where
  "SKIP_VAULTS = {''94828'', ''94797''}"

record gas_policy =
  feeNative :: "string \<rightharpoonup> real"
  policy_MIN_USD_PER_TX :: real
  policy_STABLECOIN_MIN_USD :: real

text \<open>
  \<^verbatim>\<open>/^USDC/.test(assetId) || /^USDT/.test(assetId) || assetId === "TUSD" || /^BUSD/.test(assetId)\<close>
\<close>

definition isStablePrefix :: "string \<Rightarrow> bool" where
  "isStablePrefix aid =
     (startsWith aid ''USDC'' \<or> startsWith aid ''USDT'' \<or> aid = ''TUSD''
      \<or> startsWith aid ''BUSD'')"

definition rowIdOf :: "plan_line \<Rightarrow> string" where
  "rowIdOf p = rowId (p_source p) (p_asset p) (p_dest p)"

fun remainingRows :: "string set \<Rightarrow> plan_line list \<Rightarrow> candidate list" where
  "remainingRows completed [] = []"
| "remainingRows completed (r # rs) =
     (if rowIdOf r \<in> completed then remainingRows completed rs
      else \<lparr>rid = rowIdOf r, sourceVaultId = p_source r, assetId = p_asset r,
             amount = p_amount r, destinationVaultId = p_dest r,
             requiresGas = p_requiresGas r, gasAssetId = p_gasAsset r,
             gasReady = p_gasReady r\<rparr> # remainingRows completed rs)"

datatype status = READY_NOW | STATUS_NEEDS_GAS | NOT_WORTH

text \<open>
  A row of \<open>perRow\<close>. The two USD fields are numbers here; the source prints them with six
  decimals.
\<close>

record per_row = candidate +
  valueUsd :: "real option"
  minUsdPolicy :: real
  belowMin :: bool
  estGasUsd :: "real option"
  gasNotWorth :: bool
  status :: status

definition priceOf :: "(string \<rightharpoonup> real) \<Rightarrow> string \<Rightarrow> real option" where
  "priceOf prs a = prs a"

text \<open>The body of the loop over \<open>remaining\<close>; \<open>None\<close> is the \<open>continue\<close> on a skipped vault.\<close>

definition statusRow :: "gas_policy \<Rightarrow> (string \<rightharpoonup> real) \<Rightarrow> candidate \<Rightarrow> per_row option" where
  "statusRow gas prs r =
     (if sourceVaultId r \<in> SKIP_VAULTS then None
      else
        (let assetPx = priceOf prs (assetId r);
             value = map_option (\<lambda>px. amount r * px) assetPx;
             minUsd = (if isStablePrefix (assetId r) then policy_STABLECOIN_MIN_USD gas
                       else policy_MIN_USD_PER_TX gas);
             below = (case value of None \<Rightarrow> False | Some v \<Rightarrow> v < minUsd);
             estGas = (if requiresGas r
                       then (case (feeNative gas (gasAssetId r), priceOf prs (gasAssetId r)) of
                               (Some gasNative, Some gasPx) \<Rightarrow> Some (gasNative * gasPx)
                             | _ \<Rightarrow> None)
                       else None);
             notWorth = (case (value, estGas) of
                           (Some v, Some g) \<Rightarrow> g \<ge> v \<and> requiresGas r
                         | _ \<Rightarrow> False);
             status0 = (if requiresGas r \<and> \<not> gasReady r then STATUS_NEEDS_GAS else READY_NOW);
             status1 = (if below \<or> notWorth then NOT_WORTH else status0)
         in Some \<lparr>rid = rid r, sourceVaultId = sourceVaultId r, assetId = assetId r,
                  amount = amount r, destinationVaultId = destinationVaultId r,
                  requiresGas = requiresGas r, gasAssetId = gasAssetId r,
                  gasReady = gasReady r, valueUsd = value, minUsdPolicy = minUsd,
                  belowMin = below, estGasUsd = estGas, gasNotWorth = notWorth,
                  status = status1\<rparr>))"

definition perRow ::
  "gas_policy \<Rightarrow> (string \<rightharpoonup> real) \<Rightarrow> string set \<Rightarrow> plan_line list \<Rightarrow> per_row list" where
  "perRow gas prs completed plan =
     List.map_filter (statusRow gas prs) (remainingRows completed plan)"

section \<open>The inventory analysis (fb\_analyze\_inventory.js): loadPricesUsd\<close>

datatype error = FetchError

text \<open>The first loop: \<open>if (overrides[a] !== undefined) prices[a] = Number(overrides[a])\<close>.\<close>

definition overrideStep ::
  "(string \<rightharpoonup> real) \<Rightarrow> string \<Rightarrow> (string \<rightharpoonup> real) \<Rightarrow> (string \<rightharpoonup> real)" where
  "overrideStep overrides a prs =
     (case overrides a of None \<Rightarrow> prs | Some v \<Rightarrow> prs(a \<mapsto> v))"

text \<open>The loop of the \<open>cache\<close> mode.\<close>

definition cacheStep ::
  "(string \<rightharpoonup> real) \<Rightarrow> string \<Rightarrow> (string \<rightharpoonup> real) \<Rightarrow> (string \<rightharpoonup> real)" where
  "cacheStep cachedPrices a prs =
     (if prs a \<noteq> None then prs
      else (case cachedPrices a of None \<Rightarrow> prs | Some v \<Rightarrow> prs(a \<mapsto> v)))"

record cg_state =
  cg_prices :: "string \<rightharpoonup> real"
  ids :: "string list"
  cgToAsset :: "string \<rightharpoonup> string list"

text \<open>The loop that maps the unpriced assets to CoinGecko ids, or falls back to the cache.\<close>

definition mapStep ::
  "(string \<rightharpoonup> string) \<Rightarrow> (string \<rightharpoonup> real) \<Rightarrow> string \<Rightarrow> cg_state \<Rightarrow> cg_state" where
  "mapStep assetToCg cachedPrices a s =
     (if cg_prices s a \<noteq> None then s
      else if truthy (assetToCg a) then
        (case assetToCg a of
           None \<Rightarrow> s
         | Some cg \<Rightarrow>
             s\<lparr>ids := ids s @ [cg],
               cgToAsset := (cgToAsset s)
                 (cg \<mapsto> (case cgToAsset s cg of None \<Rightarrow> [] | Some l \<Rightarrow> l) @ [a])\<rparr>)
      else (case cachedPrices a of
              None \<Rightarrow> s
            | Some v \<Rightarrow> s\<lparr>cg_prices := (cg_prices s)(a \<mapsto> v)\<rparr>))"

text \<open>
  The response body is the list of its keys with the \<open>usd\<close> field of each entry (\<open>None\<close>
  when \<open>usd\<close> is undefined or null). Every asset mapped to the id takes the fetched price.
\<close>

definition assignStep ::
  "(string \<rightharpoonup> string list) \<Rightarrow> string \<times> real option \<Rightarrow> (string \<rightharpoonup> real) \<Rightarrow> (string \<rightharpoonup> real)" where
  "assignStep c2a entry prs =
     (case entry of
        (cgId, None) \<Rightarrow> prs
      | (cgId, Some usd) \<Rightarrow>
          fold (\<lambda>a m. m(a \<mapsto> usd)) (case c2a cgId of None \<Rightarrow> [] | Some l \<Rightarrow> l) prs)"

text \<open>The loop over the chunks. A failed request rejects the whole call.\<close>

fun fetchLoop ::
  "(string list \<Rightarrow> error + (string \<times> real option) list) \<Rightarrow> (string \<rightharpoonup> string list)
     \<Rightarrow> string list list \<Rightarrow> (string \<rightharpoonup> real) \<Rightarrow> error + (string \<rightharpoonup> real)" where
  "fetchLoop fetch c2a [] prs = Inr prs"
| "fetchLoop fetch c2a (chunk # rest) prs =
     (case fetch chunk of
        Inl e \<Rightarrow> Inl e
      | Inr json \<Rightarrow> fetchLoop fetch c2a rest (fold (assignStep c2a) json prs))"

text \<open>
  The state before the first request: the overrides, then the mapping loop over the
  assets.
\<close>

definition mapToCg ::
  "(string \<rightharpoonup> real) \<Rightarrow> (string \<rightharpoonup> real) \<Rightarrow> (string \<rightharpoonup> string) \<Rightarrow> string list \<Rightarrow> cg_state" where
  "mapToCg overrides cachedPrices assetToCg assetIds =
     fold (mapStep assetToCg cachedPrices) assetIds
       \<lparr>cg_prices = fold (overrideStep overrides) assetIds Map.empty, ids = [],
        cgToAsset = Map.empty\<rparr>"

text \<open>
  \<open>loadPricesUsd\<close> returns the prices; the second component is the content of the cache
  file after the call (written only at the end of the CoinGecko branch).
\<close>

definition loadPricesUsd ::
  "string \<Rightarrow> (string \<rightharpoonup> real) \<Rightarrow> (string \<rightharpoonup> real) \<Rightarrow> (string \<rightharpoonup> string)
     \<Rightarrow> (string list \<Rightarrow> error + (string \<times> real option) list) \<Rightarrow> string list
     \<Rightarrow> error + (string \<rightharpoonup> real) \<times> (string \<rightharpoonup> real)" where
  "loadPricesUsd PRICE_SOURCE overrides cachedPrices assetToCg fetch assetIds =
     (let prs0 = fold (overrideStep overrides) assetIds Map.empty
      in if PRICE_SOURCE = ''offline'' then Inr (prs0, cachedPrices)
         else if PRICE_SOURCE = ''cache''
         then Inr (fold (cacheStep cachedPrices) assetIds prs0, cachedPrices)
         else
           (let s = mapToCg overrides cachedPrices assetToCg assetIds;
                uniqIds = uniq (ids s)
            in if length uniqIds = 0 then Inr (cg_prices s, cachedPrices)
               else
                 (case fetchLoop fetch (cgToAsset s) (chunks 150 uniqIds) (cg_prices s) of
                    Inl e \<Rightarrow> Inl e
                  | Inr prs \<Rightarrow> Inr (prs, cachedPrices ++ prs))))"

text \<open>
  The per-asset statistics of the coverage report: \<open>hasPrice = Number.isFinite(price)\<close>,
  the USD total and the pricing method (the column \<open>priceUsdMethod\<close>).
\<close>

record asset_stat =
  hasPrice :: bool
  usdTotal :: real
  priceUsdMethod :: string
  unknownRows :: nat

definition assetStat ::
  "(string \<rightharpoonup> real) \<Rightarrow> (string \<rightharpoonup> string) \<Rightarrow> (string \<rightharpoonup> real) \<Rightarrow> (string \<rightharpoonup> real)
     \<Rightarrow> string \<Rightarrow> real \<Rightarrow> nat \<Rightarrow> asset_stat" where
  "assetStat overrides assetToCg cachedPrices prs aid sumTotal rowCount =
     (let price = prs aid;
          has = (price \<noteq> None)
      in \<lparr>hasPrice = has,
          usdTotal = (case price of None \<Rightarrow> 0 | Some px \<Rightarrow> sumTotal * px),
          priceUsdMethod = (if overrides aid \<noteq> None then ''override''
                    else if truthy (assetToCg aid) then ''coingecko''
                    else if cachedPrices aid \<noteq> None then ''cache''
                    else ''unknown''),
          unknownRows = (if has then 0 else rowCount)\<rparr>)"

section \<open>The price updater (fb\_update\_prices.js): the override loop\<close>

text \<open>
  \<^verbatim>\<open>for (const [k, v] of Object.entries(overrides)) {
    const n = Number(v);
    if (Number.isFinite(n) && n > 0) { prices[k] = n; method[k] = "override_usd"; } }\<close>
\<close>

record updater_state =
  upd_prices :: "string \<rightharpoonup> real"
  upd_method :: "string \<rightharpoonup> string"

definition updaterOverrideStep :: "string \<times> real \<Rightarrow> updater_state \<Rightarrow> updater_state" where
  "updaterOverrideStep kv s =
     (case kv of (k, n) \<Rightarrow>
        if n > 0
        then s\<lparr>upd_prices := (upd_prices s)(k \<mapsto> n),
               upd_method := (upd_method s)(k \<mapsto> ''override_usd'')\<rparr>
        else s)"

definition updaterOverrides :: "(string \<times> real) list \<Rightarrow> updater_state" where
  "updaterOverrides overrides =
     fold updaterOverrideStep overrides \<lparr>upd_prices = Map.empty, upd_method = Map.empty\<rparr>"

section \<open>re\_eval.js: fetchPricesUsd\<close>

text \<open>
  The object written to \<open>last_prices_usd.json\<close>: a time stamp, a source tag and the prices
  keyed by CoinGecko id.
\<close>

record snapshot =
  asOf :: string
  snap_source :: string
  snap_prices :: "string \<rightharpoonup> real"

text \<open>\<open>typeof obj.usd === "number" ? obj.usd : null\<close>, then \<open>prices[id] = p\<close> unless null.\<close>

definition storeStep :: "string \<times> real option \<Rightarrow> (string \<rightharpoonup> real) \<Rightarrow> (string \<rightharpoonup> real)" where
  "storeStep entry prs = (case entry of (cgid, None) \<Rightarrow> prs | (cgid, Some p) \<Rightarrow> prs(cgid \<mapsto> p))"

fun snapshotLoop ::
  "(string list \<Rightarrow> error + (string \<times> real option) list) \<Rightarrow> string list list
     \<Rightarrow> (string \<rightharpoonup> real) \<Rightarrow> error + (string \<rightharpoonup> real)" where
  "snapshotLoop fetch [] prs = Inr prs"
| "snapshotLoop fetch (chunk # rest) prs =
     (case fetch chunk of
        Inl e \<Rightarrow> Inl e
      | Inr json \<Rightarrow> snapshotLoop fetch rest (fold storeStep json prs))"

text \<open>
  \<open>assetToCg\<close> is the list of the entries of the mapping file, \<open>nowIso\<close> the clock reading.
  The result is the fetched prices and the write to the cache file, if any. The function
  never reads the cache file.
\<close>

definition fetchPricesUsd ::
  "string \<Rightarrow> (string \<times> string) list \<Rightarrow> (string list \<Rightarrow> error + (string \<times> real option) list)
     \<Rightarrow> error + (string \<rightharpoonup> real) \<times> snapshot option" where
  "fetchPricesUsd nowIso assetToCg fetch =
     (let cgIds = uniq (filter (\<lambda>cg. cg \<noteq> []) (map snd assetToCg))
      in if length cgIds = 0 then Inr (Map.empty, None)
         else
           (case snapshotLoop fetch (chunks 250 cgIds) Map.empty of
              Inl e \<Rightarrow> Inl e
            | Inr prs \<Rightarrow>
                Inr (prs, Some \<lparr>asOf = nowIso, snap_source = ''coingecko/simple/price'',
                                 snap_prices = prs\<rparr>)))"

text \<open>The price entries held by the cache file after a run that started with \<open>old\<close>.\<close>

definition cacheAfter :: "(string \<rightharpoonup> real) \<Rightarrow> snapshot option \<Rightarrow> (string \<rightharpoonup> real)" where
  "cacheAfter old w = (case w of None \<Rightarrow> old | Some snap \<Rightarrow> snap_prices snap)"

section \<open>percentile\<close>

text \<open>\<open>a[i]\<close> for an integral index: \<open>undefined\<close> outside the array.\<close>

definition elemAt :: "real list \<Rightarrow> int \<Rightarrow> real option" where
  "elemAt a i = (if 0 \<le> i \<and> i < int (length a) then Some (a ! nat i) else None)"

text \<open>
  The breakeven analysis (analysis\_breakeven\_by\_asset.js) passes an array it has sorted (\<open>sorted_arr\<close> is the
  parameter \<open>sorted\<close>). \<open>None\<close> is a result that is not a
  number (\<open>undefined\<close> or \<open>NaN\<close>, from an index outside the array).
\<close>

definition percentileSorted :: "real list \<Rightarrow> real \<Rightarrow> real option" where
  "percentileSorted sorted_arr p =
     (if length sorted_arr = 0 then Some 0
      else
        (let idx = (real (length sorted_arr) - 1) * p;
             lo = \<lfloor>idx\<rfloor>;
             hi = \<lceil>idx\<rceil>
         in if lo = hi then elemAt sorted_arr lo
            else
              (let w = idx - of_int lo
               in (case (elemAt sorted_arr lo, elemAt sorted_arr hi) of
                     (Some x, Some y) \<Rightarrow> Some (x * (1 - w) + y * w)
                   | _ \<Rightarrow> None))))"

text \<open>The inventory analysis sorts a copy of its argument first.\<close>

definition percentile :: "real list \<Rightarrow> real \<Rightarrow> real option" where
  "percentile arr p =
     (if length arr = 0 then Some 0
      else
        (let a = sort arr;
             idx = (real (length a) - 1) * p;
             lo = \<lfloor>idx\<rfloor>;
             hi = \<lceil>idx\<rceil>
         in if lo = hi then elemAt a lo
            else
              (let w = idx - of_int lo
               in (case (elemAt a lo, elemAt a hi) of
                     (Some x, Some y) \<Rightarrow> Some (x * (1 - w) + y * w)
                   | _ \<Rightarrow> None))))"

text \<open>
  The specification's wording: index \<open>(n-1)*p\<close>, value the linear blend of the values at
  the floor and the ceiling of the index.
\<close>

definition interpolate :: "real list \<Rightarrow> real \<Rightarrow> real" where
  "interpolate a p =
     (let idx = (real (length a) - 1) * p
      in a ! nat \<lfloor>idx\<rfloor> * (1 - frac idx) + a ! nat \<lceil>idx\<rceil> * frac idx)"

section \<open>fireblocks\_analysis.js: the evaluation loop\<close>

text \<open>
  The first version of the analysis pushes every plan line as a candidate and tests the
  completed set in the evaluation loop, where it counts the completed rows.
\<close>

definition isStable1 :: "string \<Rightarrow> bool" where
  "isStable1 aid =
     (let a = toUpperCase aid
      in includes_str a ''USDC'' \<or> includes_str a ''USDT'' \<or> a = ''TUSD''
         \<or> includes_str a ''TUSD'' \<or> includes_str a ''BUSD'')"

definition allCandidates :: "plan_line list \<Rightarrow> candidate list" where
  "allCandidates plan =
     map (\<lambda>l. \<lparr>rid = rowId (p_source l) (p_asset l) (p_dest l), sourceVaultId = p_source l,
               assetId = p_asset l, amount = p_amount l, destinationVaultId = p_dest l,
               requiresGas = p_requiresGas l, gasAssetId = p_gasAsset l,
               gasReady = p_gasReady l\<rparr>) plan"

record evaluated = candidate +
  ev_priceUSD :: "real option"
  ev_estUSD :: "real option"
  ev_reason :: reason
  ev_priceKnown :: bool

record eval_state =
  completedCount :: nat
  remainingCount :: nat
  remaining :: "evaluated list"

definition evalStep ::
  "config \<Rightarrow> string set \<Rightarrow> (string \<rightharpoonup> real) \<Rightarrow> (string \<rightharpoonup> real) \<Rightarrow> candidate
     \<Rightarrow> eval_state \<Rightarrow> eval_state" where
  "evalStep cfg completedSet minByAsset prs r s =
     (if rid r \<in> completedSet then s\<lparr>completedCount := completedCount s + 1\<rparr>
      else
        (let price = prs (assetId r);
             usd = (case price of None \<Rightarrow> 0 | Some px \<Rightarrow> amount r * px);
             m = (case minByAsset (assetId r) of
                    Some v \<Rightarrow> Some v
                  | None \<Rightarrow>
                      if isStable1 (assetId r) then Some (STABLECOIN_MIN_USD cfg)
                      else (case price of
                              None \<Rightarrow> None
                            | Some px \<Rightarrow>
                                if px > 0 then Some (MIN_USD_PER_TX cfg / px) else None));
             rsn = (if requiresGas r \<and> \<not> gasReady r then NEEDS_GAS
                    else if lessThanMin m (amount r) then BELOW_MIN
                    else READY_TO_EXECUTE);
             known = (case price of None \<Rightarrow> False | Some px \<Rightarrow> px > 0)
         in s\<lparr>remainingCount := remainingCount s + 1,
               remaining := remaining s @
                 [\<lparr>rid = rid r, sourceVaultId = sourceVaultId r, assetId = assetId r,
                   amount = amount r, destinationVaultId = destinationVaultId r,
                   requiresGas = requiresGas r, gasAssetId = gasAssetId r,
                   gasReady = gasReady r,
                   ev_priceUSD = (if known then price else None),
                   ev_estUSD = (if known then Some usd else None),
                   ev_reason = rsn, ev_priceKnown = known\<rparr>]\<rparr>))"

definition evaluate ::
  "config \<Rightarrow> string set \<Rightarrow> (string \<rightharpoonup> real) \<Rightarrow> (string \<rightharpoonup> real) \<Rightarrow> plan_line list
     \<Rightarrow> eval_state" where
  "evaluate cfg completedSet minByAsset prs plan =
     fold (evalStep cfg completedSet minByAsset prs) (allCandidates plan)
       \<lparr>completedCount = 0, remainingCount = 0, remaining = []\<rparr>"

section \<open>Properties\<close>

subsection \<open>Candidate collection\<close>

lemma collect_fst:
  "fst (collect completed plan (cs, as)) =
     cs @ map (\<lambda>l. \<lparr>rid = rowIdOf l, sourceVaultId = p_source l, assetId = p_asset l,
               amount = p_amount l, destinationVaultId = p_dest l,
               requiresGas = p_requiresGas l, gasAssetId = p_gasAsset l,
               gasReady = p_gasReady l\<rparr>) (filter (\<lambda>l. rowIdOf l \<notin> completed) plan)"
  by (induction plan arbitrary: cs as) (auto simp: Let_def rowIdOf_def)

lemma remainingRows_eq:
  "remainingRows completed plan =
     map (\<lambda>l. \<lparr>rid = rowIdOf l, sourceVaultId = p_source l, assetId = p_asset l,
               amount = p_amount l, destinationVaultId = p_dest l,
               requiresGas = p_requiresGas l, gasAssetId = p_gasAsset l,
               gasReady = p_gasReady l\<rparr>) (filter (\<lambda>l. rowIdOf l \<notin> completed) plan)"
  by (induction plan) auto

lemma classifyRow_rid: "rid (classifyRow cfg mba st r) = rid r"
  by (simp add: classifyRow_def Let_def split: prod.split)

lemma statusRow_rid: "statusRow gas prs r = Some q \<Longrightarrow> rid q = rid r"
  by (auto simp: statusRow_def Let_def split: if_splits)

lemma fold_evalStep:
  "fold (evalStep cfg completed mba prs) cs s = s' \<Longrightarrow>
     completedCount s' = completedCount s + length (filter (\<lambda>c. rid c \<in> completed) cs) \<and>
     remainingCount s' = remainingCount s + length (filter (\<lambda>c. rid c \<notin> completed) cs) \<and>
     map rid (remaining s') = map rid (remaining s) @ filter (\<lambda>x. x \<notin> completed) (map rid cs)"
  by (induction cs arbitrary: s s') (auto simp: evalStep_def Let_def)

lemma analyse_rids:
  "map rid (fst (analyse cfg completed mba cacheFile cgmap fetch plan)) =
     filter (\<lambda>x. x \<notin> completed) (map rowIdOf plan)"
proof -
  obtain cands as where c: "collect completed plan ([], []) = (cands, as)"
    by (cases "collect completed plan ([], [])")
  have "cands = fst (collect completed plan ([], []))" by (simp add: c)
  then have "map rid cands = filter (\<lambda>x. x \<notin> completed) (map rowIdOf plan)"
    by (simp add: collect_fst filter_map comp_def)
  then show ?thesis
    by (simp add: analyse_def c classifyAll_def classifyRow_rid comp_def split: prod.split)
qed

lemma statusRow_rid_the: "statusRow gas prs r \<noteq> None \<Longrightarrow> rid (the (statusRow gas prs r)) = rid r"
  by (auto dest: statusRow_rid)

lemma remainingRows_rids:
  "map rid (remainingRows completed plan) = filter (\<lambda>x. x \<notin> completed) (map rowIdOf plan)"
  by (simp add: remainingRows_eq filter_map comp_def)

lemma perRow_rids:
  "set (map rid (perRow gas prs completed plan)) \<subseteq> {x \<in> set (map rowIdOf plan). x \<notin> completed}"
proof -
  have "rid q \<in> set (map rid (remainingRows completed plan))"
    if "q \<in> set (perRow gas prs completed plan)" for q
  proof -
    from that obtain r where r: "r \<in> set (remainingRows completed plan)"
      and q: "statusRow gas prs r = Some q"
      by (auto simp: perRow_def List.map_filter_def)
    from q have "rid q = rid r" by (rule statusRow_rid)
    with r show ?thesis by auto
  qed
  then have "set (map rid (perRow gas prs completed plan)) \<subseteq>
      set (map rid (remainingRows completed plan))"
    by auto
  also have "\<dots> = {x \<in> set (map rowIdOf plan). x \<notin> completed}"
    unfolding remainingRows_rids by auto
  finally show ?thesis .
qed

lemma evaluate_counts:
  "completedCount (evaluate cfg completed mba prs plan) =
     length (filter (\<lambda>l. rowIdOf l \<in> completed) plan) \<and>
   remainingCount (evaluate cfg completed mba prs plan) =
     length (filter (\<lambda>l. rowIdOf l \<notin> completed) plan) \<and>
   map rid (remaining (evaluate cfg completed mba prs plan)) =
     filter (\<lambda>x. x \<notin> completed) (map rowIdOf plan)"
proof -
  have m: "map rid (allCandidates plan) = map rowIdOf plan"
    by (simp add: allCandidates_def rowIdOf_def comp_def)
  have l1: "length (filter (\<lambda>c. rid c \<in> completed) (allCandidates plan)) =
      length (filter (\<lambda>l. rowIdOf l \<in> completed) plan)"
    by (simp add: allCandidates_def rowIdOf_def filter_map comp_def)
  have l2: "length (filter (\<lambda>c. rid c \<notin> completed) (allCandidates plan)) =
      length (filter (\<lambda>l. rowIdOf l \<notin> completed) plan)"
    by (simp add: allCandidates_def rowIdOf_def filter_map comp_def)
  show ?thesis
    using fold_evalStep [OF refl, of cfg completed mba prs "allCandidates plan"
        "\<lparr>completedCount = 0, remainingCount = 0, remaining = []\<rparr>"]
    by (simp add: evaluate_def m l1 l2)
qed

subsection \<open>The classification of one row\<close>

lemma reason_classifyRow:
  "reason (classifyRow cfg mba st r) =
     (if requiresGas r \<and> \<not> gasReady r then NEEDS_GAS
      else if lessThanMin (minAmt (classifyRow cfg mba st r)) (amount r) then BELOW_MIN
      else if \<not> priceKnown st r then UNKNOWN_PRICE
      else READY_TO_EXECUTE)"
  by (simp add: classifyRow_def Let_def split: prod.split)

lemma minAmt_classifyRow:
  "minAmt (classifyRow cfg mba st r) = fst (minAmountFor cfg mba (prices st) (assetId r))"
  by (simp add: classifyRow_def Let_def split: prod.split)

lemma priceUSD_classifyRow:
  "priceUSD (classifyRow cfg mba st r) = (if priceKnown st r then priceUsed st r else None)"
  by (simp add: classifyRow_def Let_def split: prod.split)

lemma estUSD_classifyRow:
  "estUSD (classifyRow cfg mba st r) =
     (if priceKnown st r then map_option (\<lambda>p. amount r * p) (priceUsed st r) else None)"
  by (simp add: classifyRow_def Let_def split: prod.split)

subsection \<open>getPrices\<close>

lemma fold_stableStep_prices:
  "prices (fold stableStep as st) k =
     (if k \<in> set as \<and> isStable k then Some 1 else prices st k)"
  by (induction as arbitrary: st) (auto simp: stableStep_def)

lemma cachedStep_keep: "prices st k = Some v \<Longrightarrow> prices (cachedStep c a st) k = Some v"
  by (auto simp: cachedStep_def)

lemma fold_cachedStep_keep:
  "prices st k = Some v \<Longrightarrow> prices (fold (cachedStep c) as st) k = Some v"
  by (induction as arbitrary: st) (auto simp: cachedStep_keep)

lemma unknownStep_prices: "prices (unknownStep a st) = prices st"
  by (simp add: unknownStep_def)

lemma fold_unknownStep_prices: "prices (fold unknownStep as st) = prices st"
  by (induction as arbitrary: st) (auto simp: unknownStep_prices)

lemma pairStep_keep: "prices st k = Some v \<Longrightarrow> prices (pairStep json pr st) k = Some v"
  by (auto simp: pairStep_def split: prod.split)

lemma fold_pairStep_keep:
  "prices st k = Some v \<Longrightarrow> prices (fold (pairStep json) ps st) k = Some v"
  by (induction ps arbitrary: st) (auto simp: pairStep_keep)

lemma chunkStep_keep:
  "prices st k = Some v \<Longrightarrow> prices (chunkStep fetch ps ch st) k = Some v"
  by (auto simp: chunkStep_def fold_pairStep_keep split: option.split)

lemma fold_chunkStep_keep:
  "prices st k = Some v \<Longrightarrow> prices (fold (chunkStep fetch ps) chs st) k = Some v"
  by (induction chs arbitrary: st) (auto simp: chunkStep_keep)

lemma getPrices_stable:
  "a \<in> set assets \<Longrightarrow> isStable a \<Longrightarrow>
     prices (fst (getPrices cfg cacheFile cgmap fetch assets)) a = Some 1"
  by (simp add: getPrices_def beforeFetch_def Let_def fold_unknownStep_prices
      fold_chunkStep_keep fold_cachedStep_keep fold_stableStep_prices)

lemma fold_cachedStep_other:
  "k \<notin> set as \<Longrightarrow> prices (fold (cachedStep c) as st) k = prices st k"
  by (induction as arbitrary: st) (auto simp: cachedStep_def)

lemma fold_pairStep_other:
  "k \<notin> fst ` set ps \<Longrightarrow> prices (fold (pairStep json) ps st) k = prices st k"
  by (induction ps arbitrary: st) (auto simp: pairStep_def split: prod.splits)

lemma fold_chunkStep_other:
  "k \<notin> fst ` set ps \<Longrightarrow> prices (fold (chunkStep fetch ps) chs st) k = prices st k"
  by (induction chs arbitrary: st) (auto simp: chunkStep_def fold_pairStep_other split: option.splits)

lemma mkPairs_fst: "k \<notin> set as \<Longrightarrow> k \<notin> fst ` set (mkPairs cgmap st as)"
  by (auto simp: mkPairs_def List.map_filter_def split: if_splits)

lemma getPrices_other:
  "k \<notin> set assets \<Longrightarrow> prices (fst (getPrices cfg cacheFile cgmap fetch assets)) k = None"
  by (simp add: getPrices_def beforeFetch_def Let_def fold_unknownStep_prices
      fold_chunkStep_other mkPairs_fst fold_cachedStep_other fold_stableStep_prices)

lemma getPrices_keep:
  "prices (beforeFetch cacheFile assets) k = Some v \<Longrightarrow>
     prices (fst (getPrices cfg cacheFile cgmap fetch assets)) k = Some v"
  by (simp add: getPrices_def Let_def fold_unknownStep_prices fold_chunkStep_keep)

subsection \<open>loadPricesUsd\<close>

lemma fold_overrideStep:
  "fold (overrideStep ov) as prs k =
     (if k \<in> set as \<and> ov k \<noteq> None then ov k else prs k)"
  by (induction as arbitrary: prs) (auto simp: overrideStep_def split: option.splits)

lemma cacheStep_keep: "prs k = Some v \<Longrightarrow> cacheStep c a prs k = Some v"
  by (auto simp: cacheStep_def split: option.splits)

lemma fold_cacheStep_keep:
  "prs k = Some v \<Longrightarrow> fold (cacheStep c) as prs k = Some v"
  by (induction as arbitrary: prs) (simp_all add: cacheStep_keep)

text \<open>
  An asset that has a price is never queued for a fetch: the mapping loop keeps its price
  and puts it on no list of \<open>cgToAsset\<close>.
\<close>

lemma mapStep_priced:
  "cg_prices s k = Some v \<and> (\<forall>cg l. cgToAsset s cg = Some l \<longrightarrow> k \<notin> set l) \<Longrightarrow>
     cg_prices (mapStep a2c c a s) k = Some v \<and>
     (\<forall>cg l. cgToAsset (mapStep a2c c a s) cg = Some l \<longrightarrow> k \<notin> set l)"
  by (auto simp: mapStep_def split: option.splits if_splits)

lemma fold_mapStep_priced:
  "cg_prices s k = Some v \<and> (\<forall>cg l. cgToAsset s cg = Some l \<longrightarrow> k \<notin> set l) \<Longrightarrow>
     cg_prices (fold (mapStep a2c c) as s) k = Some v \<and>
     (\<forall>cg l. cgToAsset (fold (mapStep a2c c) as s) cg = Some l \<longrightarrow> k \<notin> set l)"
proof (induction as arbitrary: s)
  case Nil
  then show ?case by simp
next
  case (Cons a as)
  from Cons.IH [OF mapStep_priced [OF Cons.prems]] show ?case by simp
qed

text \<open>An asset queued for a fetch is mapped and has no price.\<close>

lemma mapStep_queued:
  "\<forall>cg l. cgToAsset s cg = Some l \<longrightarrow> (\<forall>k \<in> set l. cg_prices s k = None \<and> truthy (a2c k))
     \<Longrightarrow> cgToAsset (mapStep a2c c a s) cg = Some l \<Longrightarrow> k \<in> set l
     \<Longrightarrow> cg_prices (mapStep a2c c a s) k = None \<and> truthy (a2c k)"
  by (fastforce simp: mapStep_def split: option.splits if_splits)

lemma fold_mapStep_queued:
  "\<forall>cg l. cgToAsset s cg = Some l \<longrightarrow> (\<forall>k \<in> set l. cg_prices s k = None \<and> truthy (a2c k))
     \<Longrightarrow> \<forall>cg l. cgToAsset (fold (mapStep a2c c) as s) cg = Some l \<longrightarrow>
           (\<forall>k \<in> set l. cg_prices (fold (mapStep a2c c) as s) k = None \<and> truthy (a2c k))"
proof (induction as arbitrary: s)
  case Nil
  then show ?case by simp
next
  case (Cons a as)
  have "\<forall>cg l. cgToAsset (mapStep a2c c a s) cg = Some l \<longrightarrow>
      (\<forall>k \<in> set l. cg_prices (mapStep a2c c a s) k = None \<and> truthy (a2c k))"
    using mapStep_queued [OF Cons.prems] by blast
  from Cons.IH [OF this] show ?case by simp
qed

lemma mapToCg_queued:
  "cg_prices (mapToCg ov c a2c as) k = Some v \<Longrightarrow> cgToAsset (mapToCg ov c a2c as) cg = Some l
     \<Longrightarrow> k \<notin> set l"
  using fold_mapStep_queued
    [of "\<lparr>cg_prices = fold (overrideStep ov) as Map.empty, ids = [], cgToAsset = Map.empty\<rparr>"
        a2c c as]
  by (fastforce simp: mapToCg_def)

lemma fold_assign_other: "k \<notin> set l \<Longrightarrow> fold (\<lambda>a m. m(a \<mapsto> u)) l prs k = prs k"
  by (induction l arbitrary: prs) auto

lemma assignStep_other:
  "\<forall>cg l. c2a cg = Some l \<longrightarrow> k \<notin> set l \<Longrightarrow> assignStep c2a e prs k = prs k"
  by (auto simp: assignStep_def fold_assign_other split: prod.splits option.splits)

lemma fold_assignStep_other:
  "\<forall>cg l. c2a cg = Some l \<longrightarrow> k \<notin> set l \<Longrightarrow> fold (assignStep c2a) json prs k = prs k"
  by (induction json arbitrary: prs) (auto simp: assignStep_other)

lemma fetchLoop_other:
  "\<forall>cg l. c2a cg = Some l \<longrightarrow> k \<notin> set l \<Longrightarrow> fetchLoop fetch c2a chs prs = Inr prs'
     \<Longrightarrow> prs' k = prs k"
  by (induction chs arbitrary: prs) (auto simp: fold_assignStep_other split: sum.splits)

subsection \<open>percentile\<close>

lemma percentile_sort: "percentile arr p = percentileSorted (sort arr) p"
  by (simp add: percentile_def percentileSorted_def Let_def)

lemma percentileSorted_interp:
  assumes "xs \<noteq> []" "0 \<le> p" "p \<le> 1"
  shows "percentileSorted xs p = Some (interpolate xs p)"
proof -
  let ?n = "length xs"
  let ?idx = "(real (length xs) - 1) * p"
  have n: "0 \<le> real ?n - 1" using assms(1) by (cases xs) simp_all
  have i0: "0 \<le> ?idx" using n assms(2) by (rule mult_nonneg_nonneg)
  have i1: "?idx \<le> real ?n - 1"
    using assms(3) n by (rule mult_left_le)
  have lo0: "0 \<le> \<lfloor>?idx\<rfloor>" using i0 by simp
  have hi0: "0 \<le> \<lceil>?idx\<rceil>" using i0 by simp
  have "?idx \<le> of_int (int ?n - 1)" using i1 by simp
  then have hi1: "\<lceil>?idx\<rceil> \<le> int ?n - 1" by (simp only: ceiling_le_iff)
  have lo1: "\<lfloor>?idx\<rfloor> \<le> \<lceil>?idx\<rceil>" by (rule floor_le_ceiling)
  have "\<lfloor>?idx\<rfloor> \<le> int ?n - 1" using lo1 hi1 by (rule order_trans)
  then have lo2: "\<lfloor>?idx\<rfloor> < int (length xs)" by simp
  have hi2: "\<lceil>?idx\<rceil> < int (length xs)" using hi1 by simp
  have lo: "elemAt xs \<lfloor>?idx\<rfloor> = Some (xs ! nat \<lfloor>?idx\<rfloor>)"
    using lo0 lo2 by (simp only: elemAt_def simp_thms if_True)
  have hi: "elemAt xs \<lceil>?idx\<rceil> = Some (xs ! nat \<lceil>?idx\<rceil>)"
    using hi0 hi2 by (simp only: elemAt_def simp_thms if_True)
  have ps: "percentileSorted xs p =
      (if \<lfloor>?idx\<rfloor> = \<lceil>?idx\<rceil> then elemAt xs \<lfloor>?idx\<rfloor>
       else (case (elemAt xs \<lfloor>?idx\<rfloor>, elemAt xs \<lceil>?idx\<rceil>) of
               (Some x, Some y) \<Rightarrow> Some (x * (1 - (?idx - of_int \<lfloor>?idx\<rfloor>)) + y * (?idx - of_int \<lfloor>?idx\<rfloor>))
             | _ \<Rightarrow> None))"
    using assms(1) by (simp add: percentileSorted_def Let_def)
  have ip: "interpolate xs p =
      xs ! nat \<lfloor>?idx\<rfloor> * (1 - frac ?idx) + xs ! nat \<lceil>?idx\<rceil> * frac ?idx"
    by (simp add: interpolate_def Let_def)
  show ?thesis
  proof (cases "\<lfloor>?idx\<rfloor> = \<lceil>?idx\<rceil>")
    case True
    have "?idx \<le> of_int \<lceil>?idx\<rceil>" by (rule le_of_int_ceiling)
    then have "?idx \<le> of_int \<lfloor>?idx\<rfloor>" by (simp only: True)
    then have "?idx = of_int \<lfloor>?idx\<rfloor>"
      using of_int_floor_le [of ?idx] by (rule order_antisym)
    then have fr: "frac ?idx = 0" by (simp add: frac_def)
    have "interpolate xs p = xs ! nat \<lfloor>?idx\<rfloor>"
      unfolding ip fr by simp
    moreover have "percentileSorted xs p = Some (xs ! nat \<lfloor>?idx\<rfloor>)"
      unfolding ps using True lo by simp
    ultimately show ?thesis by simp
  next
    case False
    then show ?thesis
      unfolding ps ip lo hi by (simp add: frac_def)
  qed
qed

section \<open>The claims\<close>

text \<open>
  C1, as amended. In fireblocks\_analysis\_v2.js a remaining row with \<open>requiresGas\<close> true
  and \<open>gasReady\<close> false gets the reason NEEDS\_GAS, whatever its amount, its price and its
  minimum amount. In the receivership report such a row, unless its source is one of the
  two skipped vaults (those rows are not reported), gets the status NEEDS\_GAS unless its
  asset has a price and either its USD value (amount times price) is below the minimum
  policy (the stablecoin floor for a stable asset id, the per-transaction floor otherwise)
  or its gas asset has a native fee and a price whose product, the estimated gas cost,
  is at least that value; then the status is NOT\_WORTH.
\<close>

theorem needs_gas_priority:
  "requiresGas r \<Longrightarrow> \<not> gasReady r \<Longrightarrow>
     reason (classifyRow cfg minByAsset st r) = NEEDS_GAS \<and>
     (sourceVaultId r \<in> SKIP_VAULTS \<longrightarrow> statusRow gas prs r = None) \<and>
     (sourceVaultId r \<notin> SKIP_VAULTS \<longrightarrow>
        map_option status (statusRow gas prs r) =
          Some (if \<exists>px. prs (assetId r) = Some px \<and>
                     (amount r * px <
                        (if isStablePrefix (assetId r) then policy_STABLECOIN_MIN_USD gas
                         else policy_MIN_USD_PER_TX gas)
                      \<or> (\<exists>fee gasPx. feeNative gas (gasAssetId r) = Some fee \<and>
                            prs (gasAssetId r) = Some gasPx \<and>
                            fee * gasPx \<ge> amount r * px))
                then NOT_WORTH else STATUS_NEEDS_GAS))"
proof -
  assume g: "requiresGas r" "\<not> gasReady r"
  have v2: "reason (classifyRow cfg minByAsset st r) = NEEDS_GAS"
    using g by (simp add: reason_classifyRow)
  have skip: "statusRow gas prs r = None" if "sourceVaultId r \<in> SKIP_VAULTS"
    using that by (simp add: statusRow_def)
  have rep: "map_option status (statusRow gas prs r) =
          Some (if \<exists>px. prs (assetId r) = Some px \<and>
                     (amount r * px <
                        (if isStablePrefix (assetId r) then policy_STABLECOIN_MIN_USD gas
                         else policy_MIN_USD_PER_TX gas)
                      \<or> (\<exists>fee gasPx. feeNative gas (gasAssetId r) = Some fee \<and>
                            prs (gasAssetId r) = Some gasPx \<and>
                            fee * gasPx \<ge> amount r * px))
                then NOT_WORTH else STATUS_NEEDS_GAS)"
    if n: "sourceVaultId r \<notin> SKIP_VAULTS"
  proof (cases "prs (assetId r)")
    case None
    with g n show ?thesis
      by (simp add: statusRow_def priceOf_def Let_def)
  next
    case (Some px)
    show ?thesis
    proof (cases "feeNative gas (gasAssetId r)")
      case None
      with g n Some show ?thesis
        by (simp add: statusRow_def priceOf_def Let_def)
    next
      case fee: (Some fee)
      show ?thesis
      proof (cases "prs (gasAssetId r)")
        case None
        with g n Some fee show ?thesis
          by (simp add: statusRow_def priceOf_def Let_def)
      next
        case gp: (Some gasPx)
        with g n Some fee show ?thesis
          by (simp add: statusRow_def priceOf_def Let_def)
      qed
    qed
  qed
  show ?thesis using v2 skip rep by blast
qed

text \<open>
  A gas-blocked row of 2 ETH at 3000 USD: NEEDS\_GAS in the analysis and in the report.
  The same row with the skipped vault 94828 as its source is not reported.
\<close>

theorem needs_gas_priority_witness:
  "requiresGas \<lparr>rid = ''7|ETH|9'', sourceVaultId = ''7'', assetId = ''ETH'', amount = 2,
      destinationVaultId = ''9'', requiresGas = True, gasAssetId = ''ETH'', gasReady = False\<rparr> \<and>
   \<not> gasReady \<lparr>rid = ''7|ETH|9'', sourceVaultId = ''7'', assetId = ''ETH'', amount = 2,
      destinationVaultId = ''9'', requiresGas = True, gasAssetId = ''ETH'', gasReady = False\<rparr> \<and>
   ''7'' \<notin> SKIP_VAULTS \<and> ''94828'' \<in> SKIP_VAULTS \<and>
   reason (classifyRow \<lparr>OFFLINE = True, MIN_USD_PER_TX = 1 / 100, STABLECOIN_MIN_USD = 1 / 4\<rparr>
      Map.empty \<lparr>prices = [''ETH'' \<mapsto> 3000], sources = [''ETH'' \<mapsto> Cached]\<rparr>
      \<lparr>rid = ''7|ETH|9'', sourceVaultId = ''7'', assetId = ''ETH'', amount = 2,
        destinationVaultId = ''9'', requiresGas = True, gasAssetId = ''ETH'', gasReady = False\<rparr>)
     = NEEDS_GAS \<and>
   map_option status
     (statusRow \<lparr>feeNative = [''ETH'' \<mapsto> 1 / 1000], policy_MIN_USD_PER_TX = 1 / 100,
                 policy_STABLECOIN_MIN_USD = 1 / 4\<rparr>
        [''ETH'' \<mapsto> 3000]
        \<lparr>rid = ''7|ETH|9'', sourceVaultId = ''7'', assetId = ''ETH'', amount = 2,
          destinationVaultId = ''9'', requiresGas = True, gasAssetId = ''ETH'', gasReady = False\<rparr>)
     = Some STATUS_NEEDS_GAS \<and>
   statusRow \<lparr>feeNative = [''ETH'' \<mapsto> 1 / 1000], policy_MIN_USD_PER_TX = 1 / 100,
                 policy_STABLECOIN_MIN_USD = 1 / 4\<rparr>
        [''ETH'' \<mapsto> 3000]
        \<lparr>rid = ''94828|ETH|9'', sourceVaultId = ''94828'', assetId = ''ETH'', amount = 2,
          destinationVaultId = ''9'', requiresGas = True, gasAssetId = ''ETH'', gasReady = False\<rparr>
     = None"
  using needs_gas_priority
    [where r = "\<lparr>rid = ''7|ETH|9'', sourceVaultId = ''7'', assetId = ''ETH'', amount = 2,
          destinationVaultId = ''9'', requiresGas = True, gasAssetId = ''ETH'', gasReady = False\<rparr>"
       and cfg = "\<lparr>OFFLINE = True, MIN_USD_PER_TX = 1 / 100, STABLECOIN_MIN_USD = 1 / 4\<rparr>"
       and minByAsset = Map.empty
       and st = "\<lparr>prices = [''ETH'' \<mapsto> 3000], sources = [''ETH'' \<mapsto> Cached]\<rparr>"
       and gas = "\<lparr>feeNative = [''ETH'' \<mapsto> 1 / 1000], policy_MIN_USD_PER_TX = 1 / 100,
          policy_STABLECOIN_MIN_USD = 1 / 4\<rparr>"
       and prs = "[''ETH'' \<mapsto> 3000]"]
    needs_gas_priority
    [where r = "\<lparr>rid = ''94828|ETH|9'', sourceVaultId = ''94828'', assetId = ''ETH'', amount = 2,
          destinationVaultId = ''9'', requiresGas = True, gasAssetId = ''ETH'', gasReady = False\<rparr>"
       and cfg = "\<lparr>OFFLINE = True, MIN_USD_PER_TX = 1 / 100, STABLECOIN_MIN_USD = 1 / 4\<rparr>"
       and minByAsset = Map.empty
       and st = "\<lparr>prices = [''ETH'' \<mapsto> 3000], sources = [''ETH'' \<mapsto> Cached]\<rparr>"
       and gas = "\<lparr>feeNative = [''ETH'' \<mapsto> 1 / 1000], policy_MIN_USD_PER_TX = 1 / 100,
          policy_STABLECOIN_MIN_USD = 1 / 4\<rparr>"
       and prs = "[''ETH'' \<mapsto> 3000]"]
  by (auto simp: SKIP_VAULTS_def isStablePrefix_def)

text \<open>
  C1 as stated fails in the receivership report: a gas-blocked row of 0.001 ETH at 1 USD
  is worth less than the 0.01 USD minimum and gets the status NOT\_WORTH.
\<close>

theorem needs_gas_overridden_by_not_worth:
  "requiresGas \<lparr>rid = ''7|ETH|9'', sourceVaultId = ''7'', assetId = ''ETH'', amount = 1 / 1000,
      destinationVaultId = ''9'', requiresGas = True, gasAssetId = ''ETH'', gasReady = False\<rparr> \<and>
   \<not> gasReady \<lparr>rid = ''7|ETH|9'', sourceVaultId = ''7'', assetId = ''ETH'', amount = 1 / 1000,
      destinationVaultId = ''9'', requiresGas = True, gasAssetId = ''ETH'', gasReady = False\<rparr> \<and>
   map_option status
     (statusRow \<lparr>feeNative = Map.empty, policy_MIN_USD_PER_TX = 1 / 100,
                 policy_STABLECOIN_MIN_USD = 1 / 4\<rparr>
        [''ETH'' \<mapsto> 1]
        \<lparr>rid = ''7|ETH|9'', sourceVaultId = ''7'', assetId = ''ETH'', amount = 1 / 1000,
          destinationVaultId = ''9'', requiresGas = True, gasAssetId = ''ETH'', gasReady = False\<rparr>)
     = Some NOT_WORTH"
  by (simp add: statusRow_def SKIP_VAULTS_def priceOf_def isStablePrefix_def Let_def)

text \<open>
  C2. No row id of the completed set appears in the classified output of
  fireblocks\_analysis\_v2.js, in the rows of the receivership report or in the remaining
  rows of fireblocks\_analysis.js; the output rows are the plan rows whose id is not
  completed, in plan order. fireblocks\_analysis.js counts the completed rows apart from
  the remaining ones.
\<close>

theorem completed_exclusion:
  "(\<forall>r \<in> completed.
      r \<notin> rid ` set (fst (analyse cfg completed minByAsset cacheFile cgmap fetch plan)) \<and>
      r \<notin> rid ` set (remainingRows completed plan) \<and>
      r \<notin> rid ` set (perRow gas prs completed plan) \<and>
      r \<notin> rid ` set (remaining (evaluate cfg completed minByAsset prs plan))) \<and>
   map rid (fst (analyse cfg completed minByAsset cacheFile cgmap fetch plan)) =
     filter (\<lambda>x. x \<notin> completed) (map rowIdOf plan) \<and>
   map rid (remainingRows completed plan) = filter (\<lambda>x. x \<notin> completed) (map rowIdOf plan) \<and>
   completedCount (evaluate cfg completed minByAsset prs plan) =
     length (filter (\<lambda>l. rowIdOf l \<in> completed) plan) \<and>
   remainingCount (evaluate cfg completed minByAsset prs plan) =
     length (remaining (evaluate cfg completed minByAsset prs plan))"
proof -
  let ?keep = "filter (\<lambda>x. x \<notin> completed) (map rowIdOf plan)"
  have a: "map rid (fst (analyse cfg completed minByAsset cacheFile cgmap fetch plan)) = ?keep"
    by (rule analyse_rids)
  have b: "map rid (remainingRows completed plan) = ?keep"
    by (rule remainingRows_rids)
  have c: "set (map rid (perRow gas prs completed plan)) \<subseteq> set ?keep"
    using perRow_rids [of gas prs completed plan] by auto
  note e = evaluate_counts [of cfg completed minByAsset prs plan]
  have f: "length (remaining (evaluate cfg completed minByAsset prs plan)) = length ?keep"
    using e by (metis length_map)
  have g: "length ?keep = length (filter (\<lambda>l. rowIdOf l \<notin> completed) plan)"
    by (simp add: filter_map comp_def)
  have k: "r \<notin> set ?keep" if "r \<in> completed" for r
    using that by simp
  have 1: "r \<notin> rid ` set (fst (analyse cfg completed minByAsset cacheFile cgmap fetch plan))"
    if "r \<in> completed" for r
    using k [OF that] a by (metis set_map)
  have 2: "r \<notin> rid ` set (remainingRows completed plan)" if "r \<in> completed" for r
    using k [OF that] b by (metis set_map)
  have 3: "r \<notin> rid ` set (perRow gas prs completed plan)" if "r \<in> completed" for r
    using k [OF that] c by (metis set_map subsetD)
  have 4: "r \<notin> rid ` set (remaining (evaluate cfg completed minByAsset prs plan))"
    if "r \<in> completed" for r
    using k [OF that] e by (metis set_map)
  show ?thesis
    using 1 2 3 4 a b e f g by simp
qed

text \<open>
  A plan of two rows, the first completed: the output holds the second row only, and one
  row is counted as completed.
\<close>

theorem completed_exclusion_witness:
  "''1|ETH|9'' \<in> {''1|ETH|9''} \<and>
   ''1|ETH|9'' \<notin> rid ` set (fst (analyse
      \<lparr>OFFLINE = True, MIN_USD_PER_TX = 1 / 100, STABLECOIN_MIN_USD = 1 / 4\<rparr>
      {''1|ETH|9''} Map.empty Map.empty Map.empty (\<lambda>chunk. None)
      [\<lparr>p_source = ''1'', p_asset = ''ETH'', p_amount = 1, p_dest = ''9'',
         p_requiresGas = False, p_gasAsset = [], p_gasReady = False\<rparr>,
       \<lparr>p_source = ''2'', p_asset = ''ETH'', p_amount = 1, p_dest = ''9'',
         p_requiresGas = False, p_gasAsset = [], p_gasReady = False\<rparr>])) \<and>
   map rid (fst (analyse
      \<lparr>OFFLINE = True, MIN_USD_PER_TX = 1 / 100, STABLECOIN_MIN_USD = 1 / 4\<rparr>
      {''1|ETH|9''} Map.empty Map.empty Map.empty (\<lambda>chunk. None)
      [\<lparr>p_source = ''1'', p_asset = ''ETH'', p_amount = 1, p_dest = ''9'',
         p_requiresGas = False, p_gasAsset = [], p_gasReady = False\<rparr>,
       \<lparr>p_source = ''2'', p_asset = ''ETH'', p_amount = 1, p_dest = ''9'',
         p_requiresGas = False, p_gasAsset = [], p_gasReady = False\<rparr>])) = [''2|ETH|9''] \<and>
   completedCount (evaluate
      \<lparr>OFFLINE = True, MIN_USD_PER_TX = 1 / 100, STABLECOIN_MIN_USD = 1 / 4\<rparr>
      {''1|ETH|9''} Map.empty Map.empty
      [\<lparr>p_source = ''1'', p_asset = ''ETH'', p_amount = 1, p_dest = ''9'',
         p_requiresGas = False, p_gasAsset = [], p_gasReady = False\<rparr>,
       \<lparr>p_source = ''2'', p_asset = ''ETH'', p_amount = 1, p_dest = ''9'',
         p_requiresGas = False, p_gasAsset = [], p_gasReady = False\<rparr>]) = 1"
  using completed_exclusion
    [of "{''1|ETH|9''}"
        "\<lparr>OFFLINE = True, MIN_USD_PER_TX = 1 / 100, STABLECOIN_MIN_USD = 1 / 4\<rparr>"
        Map.empty Map.empty Map.empty "\<lambda>chunk. None"
        "[\<lparr>p_source = ''1'', p_asset = ''ETH'', p_amount = 1, p_dest = ''9'',
           p_requiresGas = False, p_gasAsset = [], p_gasReady = False\<rparr>,
          \<lparr>p_source = ''2'', p_asset = ''ETH'', p_amount = 1, p_dest = ''9'',
           p_requiresGas = False, p_gasAsset = [], p_gasReady = False\<rparr>]"
        "\<lparr>feeNative = Map.empty, policy_MIN_USD_PER_TX = 1 / 100,
          policy_STABLECOIN_MIN_USD = 1 / 4\<rparr>"
        Map.empty]
  by (simp add: rowIdOf_def rowId_def)

text \<open>
  C3. A remaining row whose asset has no known price (\<open>num(p) > 0\<close> fails), no entry in
  \<open>minByAsset\<close>, an asset id that is not stable and \<open>requiresGas\<close> false has \<open>minAmt\<close> null
  and the reason UNKNOWN\_PRICE (so not BELOW\_MIN).
\<close>

theorem unknown_price_not_below_min:
  "\<not> num (prices st (assetId r)) > 0 \<Longrightarrow> minByAsset (assetId r) = None \<Longrightarrow>
   \<not> isStable (assetId r) \<Longrightarrow> \<not> requiresGas r \<Longrightarrow>
     minAmt (classifyRow cfg minByAsset st r) = None \<and>
     reason (classifyRow cfg minByAsset st r) = UNKNOWN_PRICE \<and>
     reason (classifyRow cfg minByAsset st r) \<noteq> BELOW_MIN"
  by (auto simp: reason_classifyRow minAmt_classifyRow minAmountFor_def priceKnown_def
      lessThanMin_def split: option.splits)

theorem unknown_price_not_below_min_witness:
  "\<not> num (prices \<lparr>prices = Map.empty, sources = Map.empty\<rparr>
       (assetId \<lparr>rid = ''7|XYZ|9'', sourceVaultId = ''7'', assetId = ''XYZ'', amount = 5,
          destinationVaultId = ''9'', requiresGas = False, gasAssetId = [],
          gasReady = False\<rparr>)) > 0 \<and>
   (Map.empty :: string \<rightharpoonup> real) ''XYZ'' = None \<and> \<not> isStable ''XYZ'' \<and>
   minAmt (classifyRow \<lparr>OFFLINE = True, MIN_USD_PER_TX = 1 / 100, STABLECOIN_MIN_USD = 1 / 4\<rparr>
      Map.empty \<lparr>prices = Map.empty, sources = Map.empty\<rparr>
      \<lparr>rid = ''7|XYZ|9'', sourceVaultId = ''7'', assetId = ''XYZ'', amount = 5,
        destinationVaultId = ''9'', requiresGas = False, gasAssetId = [], gasReady = False\<rparr>)
     = None \<and>
   reason (classifyRow \<lparr>OFFLINE = True, MIN_USD_PER_TX = 1 / 100, STABLECOIN_MIN_USD = 1 / 4\<rparr>
      Map.empty \<lparr>prices = Map.empty, sources = Map.empty\<rparr>
      \<lparr>rid = ''7|XYZ|9'', sourceVaultId = ''7'', assetId = ''XYZ'', amount = 5,
        destinationVaultId = ''9'', requiresGas = False, gasAssetId = [], gasReady = False\<rparr>)
     = UNKNOWN_PRICE"
  using unknown_price_not_below_min
    [of "\<lparr>prices = Map.empty, sources = Map.empty\<rparr>"
        "\<lparr>rid = ''7|XYZ|9'', sourceVaultId = ''7'', assetId = ''XYZ'', amount = 5,
          destinationVaultId = ''9'', requiresGas = False, gasAssetId = [], gasReady = False\<rparr>"
        Map.empty
        "\<lparr>OFFLINE = True, MIN_USD_PER_TX = 1 / 100, STABLECOIN_MIN_USD = 1 / 4\<rparr>"]
  by (simp add: num_def isStable_def toUpperCase_def upperChar_def)

text \<open>
  C4. A gas-blocked row is NEEDS\_GAS and a row below its minimum is BELOW\_MIN whether or
  not the price is known; UNKNOWN\_PRICE is the reason exactly when the price is unknown
  and the row is neither gas-blocked nor below its minimum.
\<close>

theorem unknown_price_only_when_ready:
  "(requiresGas r \<and> \<not> gasReady r \<longrightarrow> reason (classifyRow cfg minByAsset st r) = NEEDS_GAS) \<and>
   (\<not> (requiresGas r \<and> \<not> gasReady r) \<and>
      lessThanMin (minAmt (classifyRow cfg minByAsset st r)) (amount r) \<longrightarrow>
        reason (classifyRow cfg minByAsset st r) = BELOW_MIN) \<and>
   (reason (classifyRow cfg minByAsset st r) = UNKNOWN_PRICE \<longleftrightarrow>
      \<not> priceKnown st r \<and> \<not> (requiresGas r \<and> \<not> gasReady r) \<and>
      \<not> lessThanMin (minAmt (classifyRow cfg minByAsset st r)) (amount r))"
  by (simp add: reason_classifyRow)

text \<open>
  A row of an unpriced asset with a per-asset minimum of 5 and an amount of 1 stays
  BELOW\_MIN.
\<close>

theorem unknown_price_only_when_ready_witness:
  "\<not> priceKnown \<lparr>prices = Map.empty, sources = Map.empty\<rparr>
      \<lparr>rid = ''7|XYZ|9'', sourceVaultId = ''7'', assetId = ''XYZ'', amount = 1,
        destinationVaultId = ''9'', requiresGas = False, gasAssetId = [], gasReady = False\<rparr> \<and>
   lessThanMin
     (minAmt (classifyRow \<lparr>OFFLINE = True, MIN_USD_PER_TX = 1 / 100, STABLECOIN_MIN_USD = 1 / 4\<rparr>
        [''XYZ'' \<mapsto> 5] \<lparr>prices = Map.empty, sources = Map.empty\<rparr>
        \<lparr>rid = ''7|XYZ|9'', sourceVaultId = ''7'', assetId = ''XYZ'', amount = 1,
          destinationVaultId = ''9'', requiresGas = False, gasAssetId = [],
          gasReady = False\<rparr>)) 1 \<and>
   reason (classifyRow \<lparr>OFFLINE = True, MIN_USD_PER_TX = 1 / 100, STABLECOIN_MIN_USD = 1 / 4\<rparr>
      [''XYZ'' \<mapsto> 5] \<lparr>prices = Map.empty, sources = Map.empty\<rparr>
      \<lparr>rid = ''7|XYZ|9'', sourceVaultId = ''7'', assetId = ''XYZ'', amount = 1,
        destinationVaultId = ''9'', requiresGas = False, gasAssetId = [], gasReady = False\<rparr>)
     = BELOW_MIN"
  using unknown_price_only_when_ready
    [of "\<lparr>rid = ''7|XYZ|9'', sourceVaultId = ''7'', assetId = ''XYZ'', amount = 1,
          destinationVaultId = ''9'', requiresGas = False, gasAssetId = [], gasReady = False\<rparr>"
        "\<lparr>OFFLINE = True, MIN_USD_PER_TX = 1 / 100, STABLECOIN_MIN_USD = 1 / 4\<rparr>"
        "[''XYZ'' \<mapsto> 5]" "\<lparr>prices = Map.empty, sources = Map.empty\<rparr>"]
  by (simp add: minAmt_classifyRow minAmountFor_def lessThanMin_def priceKnown_def num_def
      isStable_def toUpperCase_def upperChar_def)

text \<open>
  C5. In \<open>loadPricesUsd\<close>, an asset of the run that has a manual override keeps the override
  as its price in every mode, also when the asset is mapped to a CoinGecko id and the
  fetch returns a price for that id. More generally a price set before the first request
  (override or cache) is the price returned; the same holds in \<open>getPrices\<close> for the stable
  and cached prices.
\<close>

theorem override_precedence:
  assumes "loadPricesUsd PRICE_SOURCE overrides cachedPrices assetToCg fetch assetIds
             = Inr (prs, cache')"
  shows "(a \<in> set assetIds \<and> overrides a = Some v \<longrightarrow> prs a = Some v) \<and>
         (PRICE_SOURCE \<noteq> ''offline'' \<and> PRICE_SOURCE \<noteq> ''cache'' \<and>
            cg_prices (mapToCg overrides cachedPrices assetToCg assetIds) k = Some w \<longrightarrow>
              prs k = Some w) \<and>
         (prices (beforeFetch cacheFile assets) k' = Some w' \<longrightarrow>
            prices (fst (getPrices cfg cacheFile cgmap fetch' assets)) k' = Some w')"
proof -
  let ?prs0 = "fold (overrideStep overrides) assetIds Map.empty"
  let ?s = "mapToCg overrides cachedPrices assetToCg assetIds"
  have live: "prs k = Some w"
    if m: "PRICE_SOURCE \<noteq> ''offline''" "PRICE_SOURCE \<noteq> ''cache''"
      and k: "cg_prices ?s k = Some w" for k w
  proof (cases "length (uniq (ids ?s)) = 0")
    case True
    with assms m k show ?thesis
      by (auto simp add: loadPricesUsd_def Let_def)
  next
    case False
    with assms m
    have "fetchLoop fetch (cgToAsset ?s) (chunks 150 (uniq (ids ?s))) (cg_prices ?s) = Inr prs"
      by (auto simp add: loadPricesUsd_def Let_def split: sum.splits)
    moreover have "\<forall>cg l. cgToAsset ?s cg = Some l \<longrightarrow> k \<notin> set l"
      using mapToCg_queued [OF k] by blast
    ultimately have "prs k = cg_prices ?s k"
      using fetchLoop_other [of "cgToAsset ?s" k fetch _ "cg_prices ?s" prs] by blast
    with k show ?thesis by simp
  qed
  have ov: "prs a = Some v" if a: "a \<in> set assetIds" "overrides a = Some v"
  proof -
    have p0: "?prs0 a = Some v"
      using a by (simp add: fold_overrideStep)
    have u: "cg_prices ?s a = Some v"
      unfolding mapToCg_def
      using fold_mapStep_priced
        [of "\<lparr>cg_prices = ?prs0, ids = [], cgToAsset = Map.empty\<rparr>" a v
            assetToCg cachedPrices assetIds]
      by (simp add: p0)
    show ?thesis
    proof (cases "PRICE_SOURCE = ''offline''")
      case True
      with assms p0 show ?thesis by (simp add: loadPricesUsd_def Let_def)
    next
      case off: False
      show ?thesis
      proof (cases "PRICE_SOURCE = ''cache''")
        case True
        with assms off p0 show ?thesis
          by (auto simp add: loadPricesUsd_def Let_def fold_cacheStep_keep)
      next
        case False
        from off False u show ?thesis by (rule live)
      qed
    qed
  qed
  show ?thesis
    using ov live getPrices_keep by blast
qed

text \<open>
  ETH has the override 3200 and the mapping to \<open>ethereum\<close>, for which the service returns
  3000; BTC has no override and takes the fetched 65000. In \<open>getPrices\<close> the cached price
  2900 of ETH is kept although the service returns 3000.
\<close>

theorem override_precedence_witness:
  "''ETH'' \<in> set [''ETH'', ''BTC''] \<and> [''ETH'' \<mapsto> 3200 :: real] ''ETH'' = Some 3200 \<and>
   loadPricesUsd ''coingecko'' [''ETH'' \<mapsto> 3200] Map.empty
     [''ETH'' \<mapsto> ''ethereum'', ''BTC'' \<mapsto> ''bitcoin'']
     (\<lambda>chunk. Inr [(''ethereum'', Some 3000), (''bitcoin'', Some 65000)])
     [''ETH'', ''BTC'']
     = Inr ([''ETH'' \<mapsto> 3200, ''BTC'' \<mapsto> 65000], [''ETH'' \<mapsto> 3200, ''BTC'' \<mapsto> 65000]) \<and>
   [''ETH'' \<mapsto> 3200 :: real, ''BTC'' \<mapsto> 65000] ''ETH'' = Some 3200 \<and>
   ''coingecko'' \<noteq> ''offline'' \<and> ''coingecko'' \<noteq> ''cache'' \<and>
   cg_prices (mapToCg [''ETH'' \<mapsto> 3200] Map.empty
     [''ETH'' \<mapsto> ''ethereum'', ''BTC'' \<mapsto> ''bitcoin''] [''ETH'', ''BTC'']) ''ETH'' = Some 3200 \<and>
   prices (beforeFetch [''ETH'' \<mapsto> 2900] [''ETH'']) ''ETH'' = Some 2900 \<and>
   prices (fst (getPrices \<lparr>OFFLINE = False, MIN_USD_PER_TX = 1 / 100, STABLECOIN_MIN_USD = 1 / 4\<rparr>
     [''ETH'' \<mapsto> 2900] [''ETH'' \<mapsto> ''ethereum''] (\<lambda>chunk. Some [''ethereum'' \<mapsto> 3000])
     [''ETH''])) ''ETH'' = Some 2900"
proof -
  have run: "loadPricesUsd ''coingecko'' [''ETH'' \<mapsto> 3200] Map.empty
     [''ETH'' \<mapsto> ''ethereum'', ''BTC'' \<mapsto> ''bitcoin'']
     (\<lambda>chunk. Inr [(''ethereum'', Some 3000), (''bitcoin'', Some 65000)])
     [''ETH'', ''BTC'']
     = Inr ([''ETH'' \<mapsto> 3200, ''BTC'' \<mapsto> 65000], [''ETH'' \<mapsto> 3200, ''BTC'' \<mapsto> 65000])"
    by (simp add: loadPricesUsd_def mapToCg_def Let_def overrideStep_def mapStep_def truthy_def
        uniq_def set_add_def chunks.simps assignStep_def)
  have q: "cg_prices (mapToCg [''ETH'' \<mapsto> 3200] Map.empty
     [''ETH'' \<mapsto> ''ethereum'', ''BTC'' \<mapsto> ''bitcoin''] [''ETH'', ''BTC'']) ''ETH'' = Some 3200"
    by (simp add: mapToCg_def overrideStep_def mapStep_def truthy_def)
  have b: "prices (beforeFetch [''ETH'' \<mapsto> 2900] [''ETH'']) ''ETH'' = Some 2900"
    by (simp add: beforeFetch_def stableStep_def cachedStep_def num_def isStable_def
        toUpperCase_def upperChar_def)
  from override_precedence
    [OF run, where a = "''ETH''" and v = 3200 and k = "''ETH''" and w = 3200
       and cacheFile = "[''ETH'' \<mapsto> 2900]" and assets = "[''ETH'']"
       and k' = "''ETH''" and w' = 2900
       and cfg = "\<lparr>OFFLINE = False, MIN_USD_PER_TX = 1 / 100, STABLECOIN_MIN_USD = 1 / 4\<rparr>"
       and cgmap = "[''ETH'' \<mapsto> ''ethereum'']"
       and fetch' = "\<lambda>chunk. Some [''ethereum'' \<mapsto> 3000]"]
    run q b
  show ?thesis by simp
qed

text \<open>
  C6. \<open>loadPricesUsd\<close> takes an override of 0 as the price: the asset has the price 0, the
  coverage report marks it as priced (\<open>hasPrice\<close>) by the method \<open>override\<close> and values
  its total at 0 USD; an override of -5 values 5 units at -25 USD. The override loop of
  fb\_update\_prices.js skips such an override.
\<close>

theorem override_zero_is_used:
  "loadPricesUsd ''coingecko'' [''ETH'' \<mapsto> 0] Map.empty Map.empty (\<lambda>chunk. Inr []) [''ETH'']
     = Inr ([''ETH'' \<mapsto> 0], Map.empty) \<and>
   assetStat [''ETH'' \<mapsto> 0] Map.empty Map.empty [''ETH'' \<mapsto> 0] ''ETH'' 5 1
     = \<lparr>hasPrice = True, usdTotal = 0, priceUsdMethod = ''override'', unknownRows = 0\<rparr> \<and>
   loadPricesUsd ''coingecko'' [''ETH'' \<mapsto> - 5] Map.empty Map.empty (\<lambda>chunk. Inr []) [''ETH'']
     = Inr ([''ETH'' \<mapsto> - 5], Map.empty) \<and>
   assetStat [''ETH'' \<mapsto> - 5] Map.empty Map.empty [''ETH'' \<mapsto> - 5] ''ETH'' 5 1
     = \<lparr>hasPrice = True, usdTotal = - 25, priceUsdMethod = ''override'', unknownRows = 0\<rparr> \<and>
   upd_prices (updaterOverrides [(''ETH'', 0)]) ''ETH'' = None \<and>
   upd_prices (updaterOverrides [(''ETH'', - 5)]) ''ETH'' = None"
  by (simp add: loadPricesUsd_def mapToCg_def Let_def overrideStep_def mapStep_def truthy_def
      uniq_def assetStat_def updaterOverrides_def updaterOverrideStep_def)

text \<open>
  C7, as amended. \<open>getPrices\<close> of fireblocks\_analysis\_v2.js, when not offline, rewrites the
  cache as the old cache overlaid with the prices of this run: an entry whose key has no
  price in this run (in particular every key that is not an asset of the plan) is kept
  unchanged, and every key priced in this run is upserted; in offline mode the cache is
  not written. \<open>fetchPricesUsd\<close> of re\_eval.js instead writes a snapshot that holds the
  prices fetched in this run only.
\<close>

theorem cache_merge:
  "(OFFLINE cfg \<longrightarrow> snd (getPrices cfg cacheFile cgmap fetch assets) = cacheFile) \<and>
   (\<not> OFFLINE cfg \<longrightarrow>
      (\<forall>k. prices (fst (getPrices cfg cacheFile cgmap fetch assets)) k = None \<longrightarrow>
           snd (getPrices cfg cacheFile cgmap fetch assets) k = cacheFile k) \<and>
      (\<forall>k v. prices (fst (getPrices cfg cacheFile cgmap fetch assets)) k = Some v \<longrightarrow>
           snd (getPrices cfg cacheFile cgmap fetch assets) k = Some v) \<and>
      (\<forall>k. k \<notin> set assets \<longrightarrow>
           snd (getPrices cfg cacheFile cgmap fetch assets) k = cacheFile k)) \<and>
   (\<forall>fetched snap. fetchPricesUsd nowIso assetToCg fetch' = Inr (fetched, Some snap) \<longrightarrow>
      cacheAfter old (Some snap) = fetched)"
proof -
  let ?g = "getPrices cfg cacheFile cgmap fetch assets"
  have off: "OFFLINE cfg \<Longrightarrow> snd ?g = cacheFile"
    by (simp add: getPrices_def Let_def)
  have m: "snd ?g = cacheFile ++ prices (fst ?g)" if "\<not> OFFLINE cfg"
    using that by (simp add: getPrices_def Let_def)
  have d: "prices (fst ?g) k = None" if "k \<notin> set assets" for k
    using that by (rule getPrices_other)
  have a: "snd ?g k = cacheFile k" if "\<not> OFFLINE cfg" "prices (fst ?g) k = None" for k
    using that by (simp add: m map_add_def)
  have b: "snd ?g k = Some v" if "\<not> OFFLINE cfg" "prices (fst ?g) k = Some v" for k v
    using that by (simp add: m map_add_def)
  have s: "cacheAfter old (Some snap) = fetched"
    if "fetchPricesUsd nowIso assetToCg fetch' = Inr (fetched, Some snap)" for fetched snap
    using that
    by (auto simp: fetchPricesUsd_def cacheAfter_def Let_def split: if_splits sum.splits)
  show ?thesis using off a b d s by blast
qed

text \<open>
  The cache holds BTC and ETH; the run prices ETH (mapped, fetched at 3000) and USDC
  (stable). The rewritten cache keeps BTC, updates ETH and adds USDC.
\<close>

theorem cache_merge_witness:
  "\<not> OFFLINE \<lparr>OFFLINE = False, MIN_USD_PER_TX = 1 / 100, STABLECOIN_MIN_USD = 1 / 4\<rparr> \<and>
   ''BTC'' \<notin> set [''ETH'', ''USDC''] \<and>
   snd (getPrices \<lparr>OFFLINE = False, MIN_USD_PER_TX = 1 / 100, STABLECOIN_MIN_USD = 1 / 4\<rparr>
          [''BTC'' \<mapsto> 65000, ''ETH'' \<mapsto> 0] [''ETH'' \<mapsto> ''ethereum'']
          (\<lambda>chunk. Some [''ethereum'' \<mapsto> 3000]) [''ETH'', ''USDC'']) ''BTC''
     = [''BTC'' \<mapsto> 65000 :: real, ''ETH'' \<mapsto> 0] ''BTC'' \<and>
   prices (fst (getPrices \<lparr>OFFLINE = False, MIN_USD_PER_TX = 1 / 100, STABLECOIN_MIN_USD = 1 / 4\<rparr>
          [''BTC'' \<mapsto> 65000, ''ETH'' \<mapsto> 0] [''ETH'' \<mapsto> ''ethereum'']
          (\<lambda>chunk. Some [''ethereum'' \<mapsto> 3000]) [''ETH'', ''USDC''])) ''ETH'' = Some 3000 \<and>
   snd (getPrices \<lparr>OFFLINE = False, MIN_USD_PER_TX = 1 / 100, STABLECOIN_MIN_USD = 1 / 4\<rparr>
          [''BTC'' \<mapsto> 65000, ''ETH'' \<mapsto> 0] [''ETH'' \<mapsto> ''ethereum'']
          (\<lambda>chunk. Some [''ethereum'' \<mapsto> 3000]) [''ETH'', ''USDC'']) ''ETH'' = Some 3000"
proof -
  have p: "prices (fst (getPrices
          \<lparr>OFFLINE = False, MIN_USD_PER_TX = 1 / 100, STABLECOIN_MIN_USD = 1 / 4\<rparr>
          [''BTC'' \<mapsto> 65000, ''ETH'' \<mapsto> 0] [''ETH'' \<mapsto> ''ethereum'']
          (\<lambda>chunk. Some [''ethereum'' \<mapsto> 3000]) [''ETH'', ''USDC''])) ''ETH'' = Some 3000"
    by (simp add: getPrices_def beforeFetch_def Let_def stableStep_def cachedStep_def
        unknownStep_def mkPairs_def List.map_filter_def truthy_def uniq_def set_add_def chunks.simps
        chunkStep_def pairStep_def num_def isStable_def toUpperCase_def upperChar_def)
  show ?thesis
    using p cache_merge
      [of "\<lparr>OFFLINE = False, MIN_USD_PER_TX = 1 / 100, STABLECOIN_MIN_USD = 1 / 4\<rparr>"
          "[''BTC'' \<mapsto> 65000, ''ETH'' \<mapsto> 0]" "[''ETH'' \<mapsto> ''ethereum'']"
          "\<lambda>chunk. Some [''ethereum'' \<mapsto> 3000]" "[''ETH'', ''USDC'']"]
    by simp
qed

text \<open>
  C7 as stated fails in re\_eval.js: the cache holds BTC, the run fetches the price of
  \<open>ethereum\<close> only, and the file written by the run has no entry for BTC.
\<close>

theorem snapshot_drops_cache_entry:
  "fetchPricesUsd ''2026-01-01T00:00:00.000Z'' [(''ETH'', ''ethereum'')]
     (\<lambda>chunk. Inr [(''ethereum'', Some 3000)])
     = Inr ([''ethereum'' \<mapsto> 3000],
            Some \<lparr>asOf = ''2026-01-01T00:00:00.000Z'', snap_source = ''coingecko/simple/price'',
                  snap_prices = [''ethereum'' \<mapsto> 3000]\<rparr>) \<and>
   [''BTC'' \<mapsto> 65000 :: real] ''BTC'' = Some 65000 \<and>
   cacheAfter [''BTC'' \<mapsto> 65000]
     (Some \<lparr>asOf = ''2026-01-01T00:00:00.000Z'', snap_source = ''coingecko/simple/price'',
            snap_prices = [''ethereum'' \<mapsto> 3000]\<rparr>) ''BTC'' = None"
  by (simp add: fetchPricesUsd_def Let_def uniq_def set_add_def chunks.simps storeStep_def
      cacheAfter_def)

text \<open>
  C8. For a non-empty array and a fraction \<open>p\<close> between 0 and 1 both percentile functions
  return the linear blend, at index \<open>(n-1)*p\<close>, of the values at the floor and the ceiling
  of the index (the inventory analysis after sorting its argument). For \<open>[1,2,3,4]\<close> the
  median is 2.5 and the 90th percentile is 3.7.
\<close>

theorem percentile_interpolation:
  "(xs \<noteq> [] \<and> 0 \<le> p \<and> p \<le> 1 \<longrightarrow>
      percentileSorted xs p = Some (interpolate xs p) \<and>
      percentile xs p = Some (interpolate (sort xs) p)) \<and>
   percentileSorted [1, 2, 3, 4] (1 / 2) = Some (5 / 2) \<and>
   percentileSorted [1, 2, 3, 4] (9 / 10) = Some (37 / 10) \<and>
   percentile [1, 2, 3, 4] (1 / 2) = Some (5 / 2) \<and>
   percentile [1, 2, 3, 4] (9 / 10) = Some (37 / 10)"
proof -
  have g: "percentileSorted xs p = Some (interpolate xs p) \<and>
      percentile xs p = Some (interpolate (sort xs) p)"
    if "xs \<noteq> []" "0 \<le> p" "p \<le> 1"
  proof -
    from that(1) have "sort xs \<noteq> []"
      by (metis length_sort length_0_conv)
    with that show ?thesis
      by (simp add: percentile_sort percentileSorted_interp)
  qed
  have e1: "percentileSorted [1, 2, 3, 4] (1 / 2) = Some (5 / 2)"
    by (simp add: percentileSorted_def Let_def elemAt_def)
  have e2: "percentileSorted [1, 2, 3, 4] (9 / 10) = Some (37 / 10)"
    by (simp add: percentileSorted_def Let_def elemAt_def)
  have e3: "percentile [1, 2, 3, 4] (1 / 2) = Some (5 / 2)"
    by (simp add: percentile_def Let_def elemAt_def)
  have e4: "percentile [1, 2, 3, 4] (9 / 10) = Some (37 / 10)"
    by (simp add: percentile_def Let_def elemAt_def)
  show ?thesis using g e1 e2 e3 e4 by blast
qed

text \<open>The unsorted array \<open>[4,1,3,2]\<close> at \<open>p = 0.9\<close>: index 2.7, value 3.7.\<close>

theorem percentile_interpolation_witness:
  "[4, 1, 3, 2 :: real] \<noteq> [] \<and> (0 :: real) \<le> 9 / 10 \<and> (9 / 10 :: real) \<le> 1 \<and>
   interpolate (sort [4, 1, 3, 2]) (9 / 10) = 37 / 10 \<and>
   percentile [4, 1, 3, 2] (9 / 10) = Some (37 / 10)"
proof -
  have i: "interpolate (sort [4, 1, 3, 2]) (9 / 10) = 37 / 10"
    by (simp add: interpolate_def Let_def frac_def)
  show ?thesis
    using i percentile_interpolation [of "[4, 1, 3, 2]" "9 / 10"] by simp
qed

text \<open>
  C9. A remaining row is BELOW\_MIN exactly when it is not gas-blocked, its \<open>minAmt\<close> is not
  null and its amount is strictly less than \<open>minAmt\<close>. When the amount equals \<open>minAmt\<close> the
  row is not BELOW\_MIN, and it is READY\_TO\_EXECUTE if it is not gas-blocked and its price
  is known.
\<close>

theorem below_min_strict:
  "(reason (classifyRow cfg minByAsset st r) = BELOW_MIN \<longleftrightarrow>
      \<not> (requiresGas r \<and> \<not> gasReady r) \<and>
      (\<exists>m. minAmt (classifyRow cfg minByAsset st r) = Some m \<and> amount r < m)) \<and>
   (minAmt (classifyRow cfg minByAsset st r) = Some (amount r) \<longrightarrow>
      reason (classifyRow cfg minByAsset st r) \<noteq> BELOW_MIN \<and>
      (\<not> (requiresGas r \<and> \<not> gasReady r) \<and> priceKnown st r \<longrightarrow>
         reason (classifyRow cfg minByAsset st r) = READY_TO_EXECUTE))"
  by (auto simp: reason_classifyRow lessThanMin_def split: option.splits)

text \<open>
  0.001 of an asset priced at 10 USD with a floor of 0.01 USD: the minimum is 0.001, the
  amount is not below it, and the row is READY\_TO\_EXECUTE.
\<close>

theorem below_min_strict_witness:
  "minAmt (classifyRow \<lparr>OFFLINE = True, MIN_USD_PER_TX = 1 / 100, STABLECOIN_MIN_USD = 1 / 4\<rparr>
      Map.empty \<lparr>prices = [''XYZ'' \<mapsto> 10], sources = [''XYZ'' \<mapsto> Cached]\<rparr>
      \<lparr>rid = ''7|XYZ|9'', sourceVaultId = ''7'', assetId = ''XYZ'', amount = 1 / 1000,
        destinationVaultId = ''9'', requiresGas = False, gasAssetId = [], gasReady = False\<rparr>)
     = Some (amount \<lparr>rid = ''7|XYZ|9'', sourceVaultId = ''7'', assetId = ''XYZ'',
        amount = 1 / 1000, destinationVaultId = ''9'', requiresGas = False, gasAssetId = [],
        gasReady = False\<rparr>) \<and>
   priceKnown \<lparr>prices = [''XYZ'' \<mapsto> 10], sources = [''XYZ'' \<mapsto> Cached]\<rparr>
      \<lparr>rid = ''7|XYZ|9'', sourceVaultId = ''7'', assetId = ''XYZ'', amount = 1 / 1000,
        destinationVaultId = ''9'', requiresGas = False, gasAssetId = [], gasReady = False\<rparr> \<and>
   reason (classifyRow \<lparr>OFFLINE = True, MIN_USD_PER_TX = 1 / 100, STABLECOIN_MIN_USD = 1 / 4\<rparr>
      Map.empty \<lparr>prices = [''XYZ'' \<mapsto> 10], sources = [''XYZ'' \<mapsto> Cached]\<rparr>
      \<lparr>rid = ''7|XYZ|9'', sourceVaultId = ''7'', assetId = ''XYZ'', amount = 1 / 1000,
        destinationVaultId = ''9'', requiresGas = False, gasAssetId = [], gasReady = False\<rparr>)
     = READY_TO_EXECUTE"
  using below_min_strict
    [of "\<lparr>OFFLINE = True, MIN_USD_PER_TX = 1 / 100, STABLECOIN_MIN_USD = 1 / 4\<rparr>"
        Map.empty "\<lparr>prices = [''XYZ'' \<mapsto> 10], sources = [''XYZ'' \<mapsto> Cached]\<rparr>"
        "\<lparr>rid = ''7|XYZ|9'', sourceVaultId = ''7'', assetId = ''XYZ'', amount = 1 / 1000,
          destinationVaultId = ''9'', requiresGas = False, gasAssetId = [], gasReady = False\<rparr>"]
  by (simp add: minAmt_classifyRow minAmountFor_def priceKnown_def num_def
      isStable_def toUpperCase_def upperChar_def)

text \<open>
  C10. A row whose asset id is stable has a known price fixed at 1, an estimated USD
  value equal to its amount and never the reason UNKNOWN\_PRICE, whatever the price
  table holds; and \<open>getPrices\<close> gives every stable asset of the plan the price 1 in every
  mode and with every cache.
\<close>

theorem stable_price_known:
  "isStable (assetId r) \<Longrightarrow>
     priceKnown st r \<and>
     priceUSD (classifyRow cfg minByAsset st r) = Some 1 \<and>
     estUSD (classifyRow cfg minByAsset st r) = Some (amount r * 1) \<and>
     reason (classifyRow cfg minByAsset st r) \<noteq> UNKNOWN_PRICE \<and>
     (assetId r \<in> set assets \<longrightarrow>
        prices (fst (getPrices cfg' cacheFile cgmap fetch assets)) (assetId r) = Some 1)"
  by (simp add: reason_classifyRow priceUSD_classifyRow estUSD_classifyRow priceKnown_def
      priceUsed_def getPrices_stable)

text \<open>
  50 \<open>usdc_polygon\<close>, offline, empty cache, empty price table: price 1, value 50,
  READY\_TO\_EXECUTE.
\<close>

theorem stable_price_known_witness:
  "isStable (assetId \<lparr>rid = ''7|usdc_polygon|9'', sourceVaultId = ''7'',
      assetId = ''usdc_polygon'', amount = 50, destinationVaultId = ''9'',
      requiresGas = False, gasAssetId = [], gasReady = False\<rparr>) \<and>
   ''usdc_polygon'' \<in> set [''usdc_polygon''] \<and>
   estUSD (classifyRow \<lparr>OFFLINE = True, MIN_USD_PER_TX = 1 / 100, STABLECOIN_MIN_USD = 1 / 4\<rparr>
      Map.empty \<lparr>prices = Map.empty, sources = Map.empty\<rparr>
      \<lparr>rid = ''7|usdc_polygon|9'', sourceVaultId = ''7'', assetId = ''usdc_polygon'',
        amount = 50, destinationVaultId = ''9'', requiresGas = False, gasAssetId = [],
        gasReady = False\<rparr>) = Some 50 \<and>
   reason (classifyRow \<lparr>OFFLINE = True, MIN_USD_PER_TX = 1 / 100, STABLECOIN_MIN_USD = 1 / 4\<rparr>
      Map.empty \<lparr>prices = Map.empty, sources = Map.empty\<rparr>
      \<lparr>rid = ''7|usdc_polygon|9'', sourceVaultId = ''7'', assetId = ''usdc_polygon'',
        amount = 50, destinationVaultId = ''9'', requiresGas = False, gasAssetId = [],
        gasReady = False\<rparr>) = READY_TO_EXECUTE \<and>
   prices (fst (getPrices \<lparr>OFFLINE = True, MIN_USD_PER_TX = 1 / 100, STABLECOIN_MIN_USD = 1 / 4\<rparr>
      Map.empty Map.empty (\<lambda>chunk. None) [''usdc_polygon''])) ''usdc_polygon'' = Some 1"
proof -
  have s: "isStable ''usdc_polygon''"
    by (simp add: isStable_def toUpperCase_def upperChar_def)
  have r: "reason (classifyRow
      \<lparr>OFFLINE = True, MIN_USD_PER_TX = 1 / 100, STABLECOIN_MIN_USD = 1 / 4\<rparr>
      Map.empty \<lparr>prices = Map.empty, sources = Map.empty\<rparr>
      \<lparr>rid = ''7|usdc_polygon|9'', sourceVaultId = ''7'', assetId = ''usdc_polygon'',
        amount = 50, destinationVaultId = ''9'', requiresGas = False, gasAssetId = [],
        gasReady = False\<rparr>) = READY_TO_EXECUTE"
    by (simp add: reason_classifyRow minAmt_classifyRow minAmountFor_def s lessThanMin_def
        priceKnown_def)
  show ?thesis
    using s r stable_price_known
      [of "\<lparr>rid = ''7|usdc_polygon|9'', sourceVaultId = ''7'', assetId = ''usdc_polygon'',
            amount = 50, destinationVaultId = ''9'', requiresGas = False, gasAssetId = [],
            gasReady = False\<rparr>"
          "\<lparr>prices = Map.empty, sources = Map.empty\<rparr>"
          "\<lparr>OFFLINE = True, MIN_USD_PER_TX = 1 / 100, STABLECOIN_MIN_USD = 1 / 4\<rparr>"
          Map.empty "[''usdc_polygon'']"
          "\<lparr>OFFLINE = True, MIN_USD_PER_TX = 1 / 100, STABLECOIN_MIN_USD = 1 / 4\<rparr>"
          Map.empty Map.empty "\<lambda>chunk. None"]
    by simp
qed

end
